theory Spec2Isabelle
  imports Main "HOL-Library.Word"
begin

section \<open>Identifier codec: bson.ObjectId\<close>

text \<open>
  An ObjectId holds a byte string; the driver makes them of twelve bytes. The library
  is not part of the repository; this is its constructor on a Python string:
  \<^verbatim>\<open>
  if len(oid) == 24:
      try:
          self.__id = bytes.fromhex(oid)
      except (TypeError, ValueError):
          _raise_invalid_id(oid)
  else:
      _raise_invalid_id(oid)
  \<close>
  A string of 24 hexadecimal digits gives twelve bytes. \<open>bytes.fromhex\<close> skips ASCII
  white space, so a string of 24 characters with white space in it can be accepted too
  and gives fewer bytes. \<open>str(oid)\<close> is the bytes in lower-case hexadecimal digits.
  A character beyond ASCII is neither a digit nor white space, so a string with one is
  refused whatever its length.
\<close>

type_synonym object_id = "8 word list"

datatype error =
    HTTPException nat string
  | InvalidId string
  | KeyError string
  | TypeError
  | DuplicateKeyError

definition hex_value :: "char \<Rightarrow> nat option" where
  "hex_value c =
     (let n = (of_char c :: nat) in
      if 48 \<le> n \<and> n \<le> 57 then Some (n - 48)
      else if 97 \<le> n \<and> n \<le> 102 then Some (n - 87)
      else if 65 \<le> n \<and> n \<le> 70 then Some (n - 55)
      else None)"

definition hex_char :: "nat \<Rightarrow> char" where
  "hex_char n = char_of (if n < 10 then 48 + n else 87 + n)"

text \<open>
  \<open>bytes.fromhex\<close>: two hexadecimal digits make a byte; ASCII white space before a
  byte and at the end is skipped; anything else raises ValueError.
\<close>

definition is_space :: "char \<Rightarrow> bool" where
  "is_space c = (let n = (of_char c :: nat) in n = 32 \<or> (9 \<le> n \<and> n \<le> 13))"

fun fromhex :: "string \<Rightarrow> 8 word list option" where
  "fromhex [] = Some []"
| "fromhex [c] = (if is_space c then Some [] else None)"
| "fromhex (c # d # cs) =
     (if is_space c then fromhex (d # cs)
      else (case hex_value c of
              None \<Rightarrow> None
            | Some hi \<Rightarrow>
                (case hex_value d of
                   None \<Rightarrow> None
                 | Some lo \<Rightarrow>
                     (case fromhex cs of
                        None \<Rightarrow> None
                      | Some bs \<Rightarrow> Some (of_nat (16 * hi + lo) # bs)))))"

text \<open>\<open>ObjectId(s)\<close> on a string, and \<open>str(oid)\<close>.\<close>

definition hex_byte :: "8 word \<Rightarrow> string" where
  "hex_byte b = [hex_char (unat b div 16), hex_char (unat b mod 16)]"

definition ObjectId :: "string \<Rightarrow> error + object_id" where
  "ObjectId s =
     (if length s = 24 then
        (case fromhex s of None \<Rightarrow> Inl (InvalidId s) | Some b \<Rightarrow> Inr b)
      else Inl (InvalidId s))"

definition str_oid :: "object_id \<Rightarrow> string" where
  "str_oid oid = concat (map hex_byte oid)"

text \<open>The identifier syntax of the storage system: 24 hexadecimal digits.\<close>

definition well_formed_id :: "string \<Rightarrow> bool" where
  "well_formed_id s \<longleftrightarrow> length s = 24 \<and> list_all (\<lambda>c. hex_value c \<noteq> None) s"

section \<open>Documents and collections\<close>

text \<open>
  A stored value is null, a string or a date. Python datetimes are microseconds since
  the epoch; BSON keeps milliseconds, so a date loses its sub-millisecond part when it
  is written.
\<close>

type_synonym datetime = int

datatype bson = BNull | BStr string | BDate datetime

type_synonym document = "string \<rightharpoonup> bson"

text \<open>
  A collection is the sequence of its documents in storage order. The \<open>_id\<close> of a
  document is kept beside its other fields: the application never supplies an \<open>_id\<close>
  of its own, so every \<open>_id\<close> is an ObjectId given by the driver at \<open>insert_one\<close>.
\<close>

type_synonym collection = "(object_id \<times> document) list"

datatype filter =
    All
  | IdEq object_id
  | IdIn "object_id list"
  | FieldEq string bson

fun matches :: "filter \<Rightarrow> object_id \<times> document \<Rightarrow> bool" where
  "matches All d = True"
| "matches (IdEq oid) d = (fst d = oid)"
| "matches (IdIn oids) d = (fst d \<in> set oids)"
| "matches (FieldEq k v) d = (case snd d k of None \<Rightarrow> v = BNull | Some x \<Rightarrow> x = v)"

fun bson_encode :: "bson \<Rightarrow> bson" where
  "bson_encode (BDate t) = BDate (t div 1000 * 1000)"
| "bson_encode v = v"

definition encode_doc :: "document \<Rightarrow> document" where
  "encode_doc d = (\<lambda>k. map_option bson_encode (d k))"

definition unique_ids :: "collection \<Rightarrow> bool" where
  "unique_ids col \<longleftrightarrow> distinct (map fst col)"

text \<open>
  \<open>insert_one\<close>: the driver gives the document a new ObjectId, here the argument
  \<open>new_id\<close>; the server refuses an \<open>_id\<close> that is already in the collection.
\<close>

definition insert_one :: "object_id \<Rightarrow> document \<Rightarrow> collection \<Rightarrow> error + (object_id \<times> collection)" where
  "insert_one new_id d col =
     (if new_id \<in> fst ` set col then Inl DuplicateKeyError
      else Inr (new_id, col @ [(new_id, encode_doc d)]))"

definition find_docs :: "filter \<Rightarrow> collection \<Rightarrow> (object_id \<times> document) list" where
  "find_docs flt col = filter (matches flt) col"

definition find_one :: "filter \<Rightarrow> collection \<Rightarrow> (object_id \<times> document) option" where
  "find_one flt col = List.find (matches flt) col"

text \<open>\<open>update_one\<close> with \<open>$set\<close>: the first matching document gets the given fields;
  the result carries \<open>matched_count\<close>.\<close>

fun update_one :: "filter \<Rightarrow> document \<Rightarrow> collection \<Rightarrow> nat \<times> collection" where
  "update_one flt fields [] = (0, [])"
| "update_one flt fields (d # ds) =
     (if matches flt d then (1, (fst d, snd d ++ encode_doc fields) # ds)
      else (case update_one flt fields ds of (n, ds') \<Rightarrow> (n, d # ds')))"

text \<open>\<open>delete_one\<close>: the first matching document is removed; the result carries
  \<open>deleted_count\<close>.\<close>

fun delete_one :: "filter \<Rightarrow> collection \<Rightarrow> nat \<times> collection" where
  "delete_one flt [] = (0, [])"
| "delete_one flt (d # ds) =
     (if matches flt d then (1, ds)
      else (case delete_one flt ds of (n, ds') \<Rightarrow> (n, d # ds')))"

text \<open>\<open>d["_id"] = str(d["_id"])\<close> on a document read from a collection.\<close>

definition stringify_id :: "object_id \<times> document \<Rightarrow> document" where
  "stringify_id d = (snd d)(''_id'' \<mapsto> BStr (str_oid (fst d)))"

record db =
  instructors_col :: collection
  students_col :: collection
  courses_col :: collection
  enrollments_col :: collection

section \<open>Pydantic schemas\<close>

record InstructorCreate =
  name :: string
  email :: string
  expertise :: "string option"

record Instructor = InstructorCreate +
  id :: "string option"

record StudentCreate =
  name :: string
  email :: string

record Student = StudentCreate +
  id :: "string option"

record CourseCreate =
  title :: string
  description :: "string option"
  instructor_id :: string

record Course = CourseCreate +
  id :: "string option"

record EnrollmentCreate =
  student_id :: string
  course_id :: string
  timestamp :: datetime

record Enrollment = EnrollmentCreate +
  id :: "string option"

text \<open>
  \<open>EmailStr\<close> hands the address to the email-validator library, which refuses what
  is no address (the request is answered 422) and returns the address normalised: among
  other things the domain is put in lower case, so the validated object can differ from
  the body the client sent. The library is not part of the repository: the schemas take
  its validation as the parameter \<open>email_str\<close>, with None for a refusal. The body has
  the fields of the schema; a field typed \<open>str\<close> is taken as sent.
\<close>

definition InstructorCreate_validate ::
  "(string \<Rightarrow> string option) \<Rightarrow> InstructorCreate \<Rightarrow> error + InstructorCreate" where
  "InstructorCreate_validate email_str body =
     (case email_str (InstructorCreate.email body) of
        None \<Rightarrow> Inl (HTTPException 422 ''Unprocessable Entity'')
      | Some e \<Rightarrow> Inr (body\<lparr>InstructorCreate.email := e\<rparr>))"

definition StudentCreate_validate ::
  "(string \<Rightarrow> string option) \<Rightarrow> StudentCreate \<Rightarrow> error + StudentCreate" where
  "StudentCreate_validate email_str body =
     (case email_str (StudentCreate.email body) of
        None \<Rightarrow> Inl (HTTPException 422 ''Unprocessable Entity'')
      | Some e \<Rightarrow> Inr (body\<lparr>StudentCreate.email := e\<rparr>))"

text \<open>
  The class body of \<open>EnrollmentCreate\<close> runs once, when the module is imported:
  \<open>timestamp: datetime = datetime.utcnow()\<close> reads the clock there and keeps the value
  as the default of the field.
\<close>

record module_state =
  timestamp_default :: datetime

definition import_module :: "datetime \<Rightarrow> module_state" where
  "import_module utcnow = \<lparr>timestamp_default = utcnow\<rparr>"

text \<open>The body of \<open>POST /enrollments\<close> as the client sends it: the timestamp may be left out.\<close>

record enrollment_body =
  body_student_id :: string
  body_course_id :: string
  body_timestamp :: "datetime option"

definition EnrollmentCreate_validate :: "module_state \<Rightarrow> enrollment_body \<Rightarrow> EnrollmentCreate" where
  "EnrollmentCreate_validate m b =
     \<lparr>student_id = body_student_id b, course_id = body_course_id b,
      timestamp = (case body_timestamp b of None \<Rightarrow> timestamp_default m | Some t \<Rightarrow> t)\<rparr>"

definition opt_str :: "string option \<Rightarrow> bson" where
  "opt_str v = (case v of None \<Rightarrow> BNull | Some s \<Rightarrow> BStr s)"

definition InstructorCreate_dict :: "InstructorCreate \<Rightarrow> document" where
  "InstructorCreate_dict i =
     [''name'' \<mapsto> BStr (InstructorCreate.name i),
      ''email'' \<mapsto> BStr (InstructorCreate.email i),
      ''expertise'' \<mapsto> opt_str (expertise i)]"

definition StudentCreate_dict :: "StudentCreate \<Rightarrow> document" where
  "StudentCreate_dict s =
     [''name'' \<mapsto> BStr (StudentCreate.name s),
      ''email'' \<mapsto> BStr (StudentCreate.email s)]"

definition CourseCreate_dict :: "CourseCreate \<Rightarrow> document" where
  "CourseCreate_dict c =
     [''title'' \<mapsto> BStr (title c),
      ''description'' \<mapsto> opt_str (description c),
      ''instructor_id'' \<mapsto> BStr (instructor_id c)]"

definition EnrollmentCreate_dict :: "EnrollmentCreate \<Rightarrow> document" where
  "EnrollmentCreate_dict e =
     [''student_id'' \<mapsto> BStr (student_id e),
      ''course_id'' \<mapsto> BStr (course_id e),
      ''timestamp'' \<mapsto> BDate (timestamp e)]"

section \<open>Instructor router\<close>

definition create_instructor :: "object_id \<Rightarrow> InstructorCreate \<Rightarrow> db \<Rightarrow> (error + Instructor) \<times> db" where
  "create_instructor new_id instructor db =
     (case insert_one new_id (InstructorCreate_dict instructor) (instructors_col db) of
        Inl e \<Rightarrow> (Inl e, db)
      | Inr (inserted_id, col') \<Rightarrow>
          (Inr \<lparr>InstructorCreate.name = InstructorCreate.name instructor,
                InstructorCreate.email = InstructorCreate.email instructor,
                expertise = expertise instructor,
                Instructor.id = Some (str_oid inserted_id)\<rparr>,
           db\<lparr>instructors_col := col'\<rparr>))"

definition list_instructors :: "db \<Rightarrow> (error + document list) \<times> db" where
  "list_instructors db = (Inr (map stringify_id (find_docs All (instructors_col db))), db)"

definition get_instructor :: "string \<Rightarrow> db \<Rightarrow> (error + document) \<times> db" where
  "get_instructor instructor_id' db =
     (case ObjectId instructor_id' of
        Inl e \<Rightarrow> (Inl (HTTPException 400 ''Invalid id format''), db)
      | Inr obj_id \<Rightarrow>
          (case find_one (IdEq obj_id) (instructors_col db) of
             None \<Rightarrow> (Inl (HTTPException 404 ''Instructor not found''), db)
           | Some doc \<Rightarrow> (Inr (stringify_id doc), db)))"

text \<open>In the update handlers, \<open>doc["_id"]\<close> on a \<open>find_one\<close> that found nothing is a
  TypeError (None is not subscriptable).\<close>

definition update_instructor :: "string \<Rightarrow> InstructorCreate \<Rightarrow> db \<Rightarrow> (error + document) \<times> db" where
  "update_instructor instructor_id' data db =
     (case ObjectId instructor_id' of
        Inl e \<Rightarrow> (Inl (HTTPException 400 ''Invalid id format''), db)
      | Inr obj_id \<Rightarrow>
          (case update_one (IdEq obj_id) (InstructorCreate_dict data) (instructors_col db) of
             (matched_count, col') \<Rightarrow>
               (let db' = db\<lparr>instructors_col := col'\<rparr> in
                if matched_count = 0 then (Inl (HTTPException 404 ''Instructor not found''), db')
                else (case find_one (IdEq obj_id) (instructors_col db') of
                        None \<Rightarrow> (Inl TypeError, db')
                      | Some doc \<Rightarrow> (Inr (stringify_id doc), db')))))"

definition delete_instructor :: "string \<Rightarrow> db \<Rightarrow> (error + unit) \<times> db" where
  "delete_instructor instructor_id' db =
     (case ObjectId instructor_id' of
        Inl e \<Rightarrow> (Inl (HTTPException 400 ''Invalid id format''), db)
      | Inr obj_id \<Rightarrow>
          (case delete_one (IdEq obj_id) (instructors_col db) of
             (deleted_count, col') \<Rightarrow>
               (let db' = db\<lparr>instructors_col := col'\<rparr> in
                if deleted_count = 0 then (Inl (HTTPException 404 ''Instructor not found''), db')
                else (Inr (), db'))))"

text \<open>
  FastAPI validates the body against the schema before it calls the handler: the routes
  \<open>POST /instructors/\<close> and \<open>PUT /instructors/{instructor_id}\<close>.
\<close>

definition post_instructors ::
  "(string \<Rightarrow> string option) \<Rightarrow> object_id \<Rightarrow> InstructorCreate \<Rightarrow> db \<Rightarrow> (error + Instructor) \<times> db" where
  "post_instructors email_str new_id body db =
     (case InstructorCreate_validate email_str body of
        Inl e \<Rightarrow> (Inl e, db)
      | Inr instructor \<Rightarrow> create_instructor new_id instructor db)"

definition put_instructor ::
  "(string \<Rightarrow> string option) \<Rightarrow> string \<Rightarrow> InstructorCreate \<Rightarrow> db \<Rightarrow> (error + document) \<times> db" where
  "put_instructor email_str instructor_id' body db =
     (case InstructorCreate_validate email_str body of
        Inl e \<Rightarrow> (Inl e, db)
      | Inr data \<Rightarrow> update_instructor instructor_id' data db)"

section \<open>Student router\<close>

definition create_student :: "object_id \<Rightarrow> StudentCreate \<Rightarrow> db \<Rightarrow> (error + Student) \<times> db" where
  "create_student new_id student db =
     (case insert_one new_id (StudentCreate_dict student) (students_col db) of
        Inl e \<Rightarrow> (Inl e, db)
      | Inr (inserted_id, col') \<Rightarrow>
          (Inr \<lparr>StudentCreate.name = StudentCreate.name student,
                StudentCreate.email = StudentCreate.email student,
                Student.id = Some (str_oid inserted_id)\<rparr>,
           db\<lparr>students_col := col'\<rparr>))"

definition list_students :: "db \<Rightarrow> (error + document list) \<times> db" where
  "list_students db = (Inr (map stringify_id (find_docs All (students_col db))), db)"

definition get_student :: "string \<Rightarrow> db \<Rightarrow> (error + document) \<times> db" where
  "get_student student_id' db =
     (case ObjectId student_id' of
        Inl e \<Rightarrow> (Inl (HTTPException 400 ''Invalid id format''), db)
      | Inr obj_id \<Rightarrow>
          (case find_one (IdEq obj_id) (students_col db) of
             None \<Rightarrow> (Inl (HTTPException 404 ''Student not found''), db)
           | Some doc \<Rightarrow> (Inr (stringify_id doc), db)))"

definition update_student :: "string \<Rightarrow> StudentCreate \<Rightarrow> db \<Rightarrow> (error + document) \<times> db" where
  "update_student student_id' data db =
     (case ObjectId student_id' of
        Inl e \<Rightarrow> (Inl (HTTPException 400 ''Invalid id format''), db)
      | Inr obj_id \<Rightarrow>
          (case update_one (IdEq obj_id) (StudentCreate_dict data) (students_col db) of
             (matched_count, col') \<Rightarrow>
               (let db' = db\<lparr>students_col := col'\<rparr> in
                if matched_count = 0 then (Inl (HTTPException 404 ''Student not found''), db')
                else (case find_one (IdEq obj_id) (students_col db') of
                        None \<Rightarrow> (Inl TypeError, db')
                      | Some doc \<Rightarrow> (Inr (stringify_id doc), db')))))"

definition delete_student :: "string \<Rightarrow> db \<Rightarrow> (error + unit) \<times> db" where
  "delete_student student_id' db =
     (case ObjectId student_id' of
        Inl e \<Rightarrow> (Inl (HTTPException 400 ''Invalid id format''), db)
      | Inr obj_id \<Rightarrow>
          (case delete_one (IdEq obj_id) (students_col db) of
             (deleted_count, col') \<Rightarrow>
               (let db' = db\<lparr>students_col := col'\<rparr> in
                if deleted_count = 0 then (Inl (HTTPException 404 ''Student not found''), db')
                else (Inr (), db'))))"

text \<open>
  The routes \<open>POST /students/\<close> and \<open>PUT /students/{student_id}\<close>, with the
  validation of the body.
\<close>

definition post_students ::
  "(string \<Rightarrow> string option) \<Rightarrow> object_id \<Rightarrow> StudentCreate \<Rightarrow> db \<Rightarrow> (error + Student) \<times> db" where
  "post_students email_str new_id body db =
     (case StudentCreate_validate email_str body of
        Inl e \<Rightarrow> (Inl e, db)
      | Inr student \<Rightarrow> create_student new_id student db)"

definition put_student ::
  "(string \<Rightarrow> string option) \<Rightarrow> string \<Rightarrow> StudentCreate \<Rightarrow> db \<Rightarrow> (error + document) \<times> db" where
  "put_student email_str student_id' body db =
     (case StudentCreate_validate email_str body of
        Inl e \<Rightarrow> (Inl e, db)
      | Inr data \<Rightarrow> update_student student_id' data db)"

section \<open>Course router\<close>

definition create_course :: "object_id \<Rightarrow> CourseCreate \<Rightarrow> db \<Rightarrow> (error + Course) \<times> db" where
  "create_course new_id course db =
     (case insert_one new_id (CourseCreate_dict course) (courses_col db) of
        Inl e \<Rightarrow> (Inl e, db)
      | Inr (inserted_id, col') \<Rightarrow>
          (Inr \<lparr>title = title course,
                description = description course,
                instructor_id = instructor_id course,
                Course.id = Some (str_oid inserted_id)\<rparr>,
           db\<lparr>courses_col := col'\<rparr>))"

definition list_courses :: "db \<Rightarrow> (error + document list) \<times> db" where
  "list_courses db = (Inr (map stringify_id (find_docs All (courses_col db))), db)"

definition get_course :: "string \<Rightarrow> db \<Rightarrow> (error + document) \<times> db" where
  "get_course course_id' db =
     (case ObjectId course_id' of
        Inl e \<Rightarrow> (Inl (HTTPException 400 ''Invalid id format''), db)
      | Inr obj_id \<Rightarrow>
          (case find_one (IdEq obj_id) (courses_col db) of
             None \<Rightarrow> (Inl (HTTPException 404 ''Course not found''), db)
           | Some doc \<Rightarrow> (Inr (stringify_id doc), db)))"

definition update_course :: "string \<Rightarrow> CourseCreate \<Rightarrow> db \<Rightarrow> (error + document) \<times> db" where
  "update_course course_id' data db =
     (case ObjectId course_id' of
        Inl e \<Rightarrow> (Inl (HTTPException 400 ''Invalid id format''), db)
      | Inr obj_id \<Rightarrow>
          (case update_one (IdEq obj_id) (CourseCreate_dict data) (courses_col db) of
             (matched_count, col') \<Rightarrow>
               (let db' = db\<lparr>courses_col := col'\<rparr> in
                if matched_count = 0 then (Inl (HTTPException 404 ''Course not found''), db')
                else (case find_one (IdEq obj_id) (courses_col db') of
                        None \<Rightarrow> (Inl TypeError, db')
                      | Some doc \<Rightarrow> (Inr (stringify_id doc), db')))))"

definition delete_course :: "string \<Rightarrow> db \<Rightarrow> (error + unit) \<times> db" where
  "delete_course course_id' db =
     (case ObjectId course_id' of
        Inl e \<Rightarrow> (Inl (HTTPException 400 ''Invalid id format''), db)
      | Inr obj_id \<Rightarrow>
          (case delete_one (IdEq obj_id) (courses_col db) of
             (deleted_count, col') \<Rightarrow>
               (let db' = db\<lparr>courses_col := col'\<rparr> in
                if deleted_count = 0 then (Inl (HTTPException 404 ''Course not found''), db')
                else (Inr (), db'))))"

definition get_courses_by_instructor :: "string \<Rightarrow> db \<Rightarrow> (error + document list) \<times> db" where
  "get_courses_by_instructor instructor_id' db =
     (Inr (map stringify_id
             (find_docs (FieldEq ''instructor_id'' (BStr instructor_id')) (courses_col db))), db)"

section \<open>Enrollment router\<close>

definition enroll_student :: "object_id \<Rightarrow> EnrollmentCreate \<Rightarrow> db \<Rightarrow> (error + Enrollment) \<times> db" where
  "enroll_student new_id enrollment db =
     (case insert_one new_id (EnrollmentCreate_dict enrollment) (enrollments_col db) of
        Inl e \<Rightarrow> (Inl e, db)
      | Inr (inserted_id, col') \<Rightarrow>
          (Inr \<lparr>student_id = student_id enrollment,
                course_id = course_id enrollment,
                timestamp = timestamp enrollment,
                Enrollment.id = Some (str_oid inserted_id)\<rparr>,
           db\<lparr>enrollments_col := col'\<rparr>))"

definition list_enrollments :: "db \<Rightarrow> (error + document list) \<times> db" where
  "list_enrollments db = (Inr (map stringify_id (find_docs All (enrollments_col db))), db)"

definition delete_enrollment :: "string \<Rightarrow> db \<Rightarrow> (error + unit) \<times> db" where
  "delete_enrollment enrollment_id db =
     (case ObjectId enrollment_id of
        Inl e \<Rightarrow> (Inl (HTTPException 400 ''Invalid id format''), db)
      | Inr obj_id \<Rightarrow>
          (case delete_one (IdEq obj_id) (enrollments_col db) of
             (deleted_count, col') \<Rightarrow>
               (let db' = db\<lparr>enrollments_col := col'\<rparr> in
                if deleted_count = 0 then (Inl (HTTPException 404 ''Enrollment not found''), db')
                else (Inr (), db'))))"

text \<open>
  The two list comprehensions of the relational handlers. \<open>e[k]\<close> raises KeyError on a
  document without the field. \<open>ObjectId(v)\<close> on a string is the codec; on None it makes
  a new ObjectId, equal to no stored \<open>_id\<close>, which adds nothing to the \<open>$in\<close> list;
  on any other value it raises TypeError. Neither handler catches an exception, and a
  comprehension stops at the first one.
\<close>

fun collect :: "('a \<Rightarrow> error + 'b) \<Rightarrow> 'a list \<Rightarrow> error + 'b list" where
  "collect f [] = Inr []"
| "collect f (x # xs) =
     (case f x of
        Inl e \<Rightarrow> Inl e
      | Inr y \<Rightarrow> (case collect f xs of Inl e \<Rightarrow> Inl e | Inr ys \<Rightarrow> Inr (y # ys)))"

definition getitem :: "string \<Rightarrow> object_id \<times> document \<Rightarrow> error + bson" where
  "getitem k e = (case snd e k of None \<Rightarrow> Inl (KeyError k) | Some v \<Rightarrow> Inr v)"

fun ObjectId_of_value :: "bson \<Rightarrow> error + object_id list" where
  "ObjectId_of_value (BStr s) = (case ObjectId s of Inl e \<Rightarrow> Inl e | Inr oid \<Rightarrow> Inr [oid])"
| "ObjectId_of_value BNull = Inr []"
| "ObjectId_of_value (BDate t) = Inl TypeError"

definition get_courses_of_student :: "string \<Rightarrow> db \<Rightarrow> (error + document list) \<times> db" where
  "get_courses_of_student student_id' db =
     (let enrolls = find_docs (FieldEq ''student_id'' (BStr student_id')) (enrollments_col db) in
      case collect (getitem ''course_id'') enrolls of
        Inl e \<Rightarrow> (Inl e, db)
      | Inr course_ids \<Rightarrow>
          (case collect ObjectId_of_value course_ids of
             Inl e \<Rightarrow> (Inl e, db)
           | Inr oids \<Rightarrow>
               (Inr (map stringify_id (find_docs (IdIn (concat oids)) (courses_col db))), db)))"

definition get_students_of_course :: "string \<Rightarrow> db \<Rightarrow> (error + document list) \<times> db" where
  "get_students_of_course course_id' db =
     (let enrolls = find_docs (FieldEq ''course_id'' (BStr course_id')) (enrollments_col db) in
      case collect (getitem ''student_id'') enrolls of
        Inl e \<Rightarrow> (Inl e, db)
      | Inr student_ids \<Rightarrow>
          (case collect ObjectId_of_value student_ids of
             Inl e \<Rightarrow> (Inl e, db)
           | Inr oids \<Rightarrow>
               (Inr (map stringify_id (find_docs (IdIn (concat oids)) (students_col db))), db)))"

text \<open>
  The routes of \<open>enrollment_router\<close>, under the prefix \<open>/enrollments\<close>; the path is the
  list of segments after the prefix. A path that fits a route of another method only
  is answered 405, a path that fits no route 404. A request brings what the outside
  provides while it is handled: the clock and the ObjectId the driver would make.
\<close>

datatype verb = GET | POST | PUT | DELETE

datatype body = NoBody | EnrollmentBody enrollment_body

datatype response = Created Enrollment | Documents "document list" | NoContent

record request_env =
  utcnow :: datetime
  new_oid :: object_id

definition lift_result :: "('a \<Rightarrow> response) \<Rightarrow> (error + 'a) \<times> db \<Rightarrow> (error + response) \<times> db" where
  "lift_result f r = (case fst r of Inl e \<Rightarrow> (Inl e, snd r) | Inr x \<Rightarrow> (Inr (f x), snd r))"

definition method_not_allowed :: "db \<Rightarrow> (error + response) \<times> db" where
  "method_not_allowed db = (Inl (HTTPException 405 ''Method Not Allowed''), db)"

definition enrollment_router ::
  "module_state \<Rightarrow> request_env \<Rightarrow> verb \<Rightarrow> string list \<Rightarrow> body \<Rightarrow> db \<Rightarrow> (error + response) \<times> db" where
  "enrollment_router m env v path b db =
     (case path of
        [] \<Rightarrow>
          (if v = POST then
             (case b of
                NoBody \<Rightarrow> (Inl (HTTPException 422 ''Unprocessable Entity''), db)
              | EnrollmentBody eb \<Rightarrow>
                  lift_result Created (enroll_student (new_oid env) (EnrollmentCreate_validate m eb) db))
           else if v = GET then lift_result Documents (list_enrollments db)
           else method_not_allowed db)
      | [enrollment_id] \<Rightarrow>
          (if enrollment_id = [] then (Inl (HTTPException 404 ''Not Found''), db)
           else if v = DELETE then lift_result (\<lambda>_. NoContent) (delete_enrollment enrollment_id db)
           else method_not_allowed db)
      | [a, x, c] \<Rightarrow>
          (if x \<noteq> [] \<and> a = ''student'' \<and> c = ''courses'' then
             (if v = GET then lift_result Documents (get_courses_of_student x db)
              else method_not_allowed db)
           else if x \<noteq> [] \<and> a = ''course'' \<and> c = ''students'' then
             (if v = GET then lift_result Documents (get_students_of_course x db)
              else method_not_allowed db)
           else (Inl (HTTPException 404 ''Not Found''), db))
      | _ \<Rightarrow> (Inl (HTTPException 404 ''Not Found''), db))"

definition empty_db :: db where
  "empty_db = \<lparr>instructors_col = [], students_col = [], courses_col = [], enrollments_col = []\<rparr>"

section \<open>Error classes and example data\<close>

text \<open>A failure with InvalidIdentifier (400) or NotFound (404).\<close>

definition client_error :: "error + 'a \<Rightarrow> bool" where
  "client_error r = (case r of Inl (HTTPException c m) \<Rightarrow> c = 400 \<or> c = 404 | _ \<Rightarrow> False)"

text \<open>Twelve-byte identifiers for the examples, as the driver makes them.\<close>

definition example_id :: "8 word \<Rightarrow> object_id" where
  "example_id b = [0, 0, 0, 0, 0, 0, 0, 0, 0, 0, 0, b]"

text \<open>The scenario of the specification: an instructor, a course of that instructor, a
  student, and the student enrolled in the course (here twice).\<close>

definition ada :: InstructorCreate where
  "ada = \<lparr>InstructorCreate.name = ''Ada'', InstructorCreate.email = ''ada@x.com'', expertise = Some ''logic''\<rparr>"

definition bob :: StudentCreate where
  "bob = \<lparr>StudentCreate.name = ''Bob'', StudentCreate.email = ''bob@x.com''\<rparr>"

definition cs101 :: CourseCreate where
  "cs101 = \<lparr>title = ''CS101'', description = Some ''Intro'',
            instructor_id = ''000000000000000000000001''\<rparr>"

definition bob_in_cs101 :: EnrollmentCreate where
  "bob_in_cs101 = \<lparr>student_id = ''000000000000000000000003'',
                   course_id = ''000000000000000000000002'', timestamp = 0\<rparr>"

definition scenario_db :: db where
  "scenario_db =
     \<lparr>instructors_col = [(example_id 1, InstructorCreate_dict ada)],
      students_col = [(example_id 3, StudentCreate_dict bob)],
      courses_col = [(example_id 2, CourseCreate_dict cs101)],
      enrollments_col = [(example_id 4, EnrollmentCreate_dict bob_in_cs101), (example_id 5, EnrollmentCreate_dict bob_in_cs101)]\<rparr>"

text \<open>
  An enrollment whose reference field \<open>k\<close> holds a well-formed identifier string.
\<close>

definition well_formed_ref :: "string \<Rightarrow> object_id \<times> document \<Rightarrow> bool" where
  "well_formed_ref k e = (case snd e k of Some (BStr s) \<Rightarrow> well_formed_id s | _ \<Rightarrow> False)"

text \<open>
  For the examples, a validation of addresses that puts what follows the last \<open>@\<close> in
  lower case and refuses a string without \<open>@\<close>. It agrees with the library on the
  addresses used here: \<open>Ada@X.COM\<close> becomes \<open>Ada@x.com\<close>.
\<close>

definition lower_char :: "char \<Rightarrow> char" where
  "lower_char c =
     (let n = (of_char c :: nat) in if 65 \<le> n \<and> n \<le> 90 then char_of (n + 32) else c)"

definition lower_domain :: "string \<Rightarrow> string option" where
  "lower_domain e =
     (if CHR ''@'' \<in> set e then
        Some (rev (dropWhile (\<lambda>c. c \<noteq> CHR ''@'') (rev e)) @
              map lower_char (rev (takeWhile (\<lambda>c. c \<noteq> CHR ''@'') (rev e))))
      else None)"

text \<open>
  Bodies for the scenario, with an address that validation changes; two of the update
  bodies leave their optional field out.
\<close>

definition ada_upper :: InstructorCreate where
  "ada_upper = \<lparr>InstructorCreate.name = ''Ada'', InstructorCreate.email = ''Ada@X.COM'',
                 expertise = Some ''logic''\<rparr>"

definition bob_upper :: StudentCreate where
  "bob_upper = \<lparr>StudentCreate.name = ''Bob'', StudentCreate.email = ''Bob@X.COM''\<rparr>"

definition ada_update :: InstructorCreate where
  "ada_update = \<lparr>InstructorCreate.name = ''Ada Lovelace'', InstructorCreate.email = ''Ada@Y.ORG'',
               expertise = None\<rparr>"

definition bob_update :: StudentCreate where
  "bob_update = \<lparr>StudentCreate.name = ''Robert'', StudentCreate.email = ''Bob@Y.ORG''\<rparr>"

definition cs101_update :: CourseCreate where
  "cs101_update = \<lparr>title = ''CS102'', description = None,
                   instructor_id = ''000000000000000000000001''\<rparr>"

text \<open>
  A request body for \<open>POST /enrollments\<close> that leaves the timestamp out, and a storage
  state with two enrollments whose reference is not an identifier (the schema takes any
  string for \<open>student_id\<close> and \<open>course_id\<close>).
\<close>

definition enrollment_request :: enrollment_body where
  "enrollment_request =
     \<lparr>body_student_id = ''000000000000000000000003'',
      body_course_id = ''000000000000000000000002'', body_timestamp = None\<rparr>"

definition dangling_db :: db where
  "dangling_db =
     scenario_db\<lparr>enrollments_col :=
       [(example_id 4, EnrollmentCreate_dict bob_in_cs101),
        (example_id 5, EnrollmentCreate_dict bob_in_cs101),
        (example_id 6, EnrollmentCreate_dict
              \<lparr>student_id = ''000000000000000000000003'', course_id = ''not-an-id'',
               timestamp = 0\<rparr>),
        (example_id 8, EnrollmentCreate_dict
              \<lparr>student_id = ''not-an-id'', course_id = ''000000000000000000000002'',
               timestamp = 0\<rparr>)]\<rparr>"

text \<open>
  The storage keeps the \<open>_id\<close> of every collection unique. The handlers start from
  it and keep it.
\<close>

definition storage_invariant :: "db \<Rightarrow> bool" where
  "storage_invariant db \<longleftrightarrow>
     unique_ids (instructors_col db) \<and> unique_ids (students_col db) \<and>
     unique_ids (courses_col db) \<and> unique_ids (enrollments_col db)"

section \<open>Codec lemmas\<close>

lemma hex_value_hex_char: "n < 16 \<Longrightarrow> hex_value (hex_char n) = Some n"
  by (auto simp: hex_value_def hex_char_def Let_def)

lemma hex_char_not_space: "n < 16 \<Longrightarrow> \<not> is_space (hex_char n)"
  by (auto simp: is_space_def hex_char_def Let_def)

lemma hex_digit_not_space: "hex_value c = Some v \<Longrightarrow> \<not> is_space c"
  by (auto simp: is_space_def hex_value_def Let_def split: if_splits)

lemma fromhex_hex_byte: "fromhex (hex_byte b @ s) = map_option ((#) b) (fromhex s)"
proof -
  have lt: "unat b < 256"
    using unsigned_less [of b] by simp
  then have hi: "unat b div 16 < 16" and lo: "unat b mod 16 < 16"
    by simp_all
  have "(of_nat (16 * (unat b div 16) + unat b mod 16) :: 8 word) = b"
    by simp
  then show ?thesis
    by (cases "fromhex s")
      (simp_all add: hex_byte_def hex_char_not_space [OF hi] hex_value_hex_char [OF hi]
        hex_value_hex_char [OF lo])
qed

lemma fromhex_str_oid: "fromhex (str_oid bs) = Some bs"
proof (induction bs)
  case Nil
  show ?case by (simp add: str_oid_def)
next
  case (Cons b bs)
  have "str_oid (b # bs) = hex_byte b @ str_oid bs"
    by (simp add: str_oid_def)
  then show ?case
    by (simp add: fromhex_hex_byte Cons)
qed

lemma length_str_oid: "length (str_oid bs) = 2 * length bs"
  by (induction bs) (simp_all add: str_oid_def hex_byte_def)

lemma ObjectId_str_oid: "length oid = 12 \<Longrightarrow> ObjectId (str_oid oid) = Inr oid"
  by (simp add: ObjectId_def length_str_oid fromhex_str_oid)

lemma str_oid_eq_iff: "str_oid a = str_oid b \<longleftrightarrow> a = b"
proof
  assume "str_oid a = str_oid b"
  then have "fromhex (str_oid a) = fromhex (str_oid b)" by simp
  then show "a = b" by (simp add: fromhex_str_oid)
qed simp

lemma fromhex_hex_digits:
  "list_all (\<lambda>c. hex_value c \<noteq> None) s \<Longrightarrow> even (length s) \<Longrightarrow>
   \<exists>bs. fromhex s = Some bs \<and> 2 * length bs = length s"
proof (induction s rule: fromhex.induct)
  case 1
  show ?case by simp
next
  case (2 c)
  then show ?case by simp
next
  case (3 c d cs)
  from "3.prems" obtain hi lo where c: "hex_value c = Some hi" and d: "hex_value d = Some lo"
    by auto
  from "3.prems" have "list_all (\<lambda>c. hex_value c \<noteq> None) cs" and "even (length cs)"
    by simp_all
  with "3.IH"(2) [OF hex_digit_not_space [OF c] c d]
  obtain bs where "fromhex cs = Some bs" and "2 * length bs = length cs"
    by blast
  then show ?case
    using c d hex_digit_not_space [OF c] by simp
qed

lemma ObjectId_well_formed:
  "well_formed_id s \<Longrightarrow> \<exists>oid. ObjectId s = Inr oid \<and> length oid = 12"
proof -
  assume wf: "well_formed_id s"
  then have "list_all (\<lambda>c. hex_value c \<noteq> None) s" and len: "length s = 24"
    by (simp_all add: well_formed_id_def)
  with fromhex_hex_digits [of s] obtain bs where "fromhex s = Some bs" and "2 * length bs = length s"
    by auto
  with len show ?thesis by (simp add: ObjectId_def)
qed


lemma fromhex_no_space:
  "fromhex s = Some bs \<Longrightarrow> list_all (\<lambda>c. \<not> is_space c) s \<Longrightarrow>
   list_all (\<lambda>c. hex_value c \<noteq> None) s"
proof (induction s arbitrary: bs rule: fromhex.induct)
  case 1
  show ?case by simp
next
  case (2 c)
  then show ?case by (simp split: if_splits)
next
  case (3 c d cs)
  then show ?case
    by (auto split: option.splits if_splits)
qed

lemma ObjectId_no_space:
  "list_all (\<lambda>c. \<not> is_space c) s \<Longrightarrow> (\<exists>oid. ObjectId s = Inr oid) \<longleftrightarrow> well_formed_id s"
  using ObjectId_well_formed [of s] fromhex_no_space [of s]
  by (auto simp: ObjectId_def well_formed_id_def split: if_splits option.splits)

subsection \<open>The identifiers of the examples\<close>

lemma example_id_eq: "example_id a = example_id b \<longleftrightarrow> a = b"
  by (simp add: example_id_def)

lemma length_example_id: "length (example_id b) = 12"
  by (simp add: example_id_def)




lemma well_formed_2: "well_formed_id ''000000000000000000000002''"
  by code_simp

lemma ObjectId_ff: "ObjectId ''0000000000000000000000ff'' = Inr (example_id 255)"
  by code_simp

lemma ObjectId_1: "ObjectId ''000000000000000000000001'' = Inr (example_id 1)"
  by code_simp

lemma ObjectId_2: "ObjectId ''000000000000000000000002'' = Inr (example_id 2)"
  by code_simp

lemma ObjectId_3: "ObjectId ''000000000000000000000003'' = Inr (example_id 3)"
  by code_simp

lemma ObjectId_4: "ObjectId ''000000000000000000000004'' = Inr (example_id 4)"
  by code_simp

lemma ObjectId_7: "ObjectId ''000000000000000000000007'' = Inr (example_id 7)"
  by code_simp

lemma str_oid_1: "str_oid (example_id 1) = ''000000000000000000000001''"
  by code_simp

lemma str_oid_2: "str_oid (example_id 2) = ''000000000000000000000002''"
  by code_simp

lemma str_oid_3: "str_oid (example_id 3) = ''000000000000000000000003''"
  by code_simp

lemma str_oid_7: "str_oid (example_id 7) = ''000000000000000000000007''"
  by code_simp

lemma ObjectId_not_an_id: "ObjectId ''not-an-id'' = Inl (InvalidId ''not-an-id'')"
  by (simp add: ObjectId_def)

section \<open>Collection lemmas\<close>

lemma find_one_IdEq_None: "find_one (IdEq oid) col = None \<longleftrightarrow> oid \<notin> fst ` set col"
  by (force simp: find_one_def find_None_iff)

lemma update_one_count: "fst (update_one flt f col) = (if \<exists>d\<in>set col. matches flt d then 1 else 0)"
  by (induction col) (auto split: prod.splits)

lemma update_one_unmatched: "fst (update_one flt f col) = 0 \<Longrightarrow> snd (update_one flt f col) = col"
  by (induction col) (auto split: prod.splits if_splits)

lemma delete_one_count: "fst (delete_one flt col) = (if \<exists>d\<in>set col. matches flt d then 1 else 0)"
  by (induction col) (auto split: prod.splits)

lemma delete_one_unmatched: "fst (delete_one flt col) = 0 \<Longrightarrow> snd (delete_one flt col) = col"
  by (induction col) (auto split: prod.splits if_splits)

lemma delete_one_subset: "set (snd (delete_one flt col)) \<subseteq> set col"
  by (induction col) (auto split: prod.splits if_splits)

lemma delete_one_unique: "unique_ids col \<Longrightarrow> unique_ids (snd (delete_one flt col))"
  unfolding unique_ids_def
proof (induction col)
  case Nil
  show ?case by simp
next
  case (Cons d ds)
  have fresh: "fst d \<notin> fst ` set (snd (delete_one flt ds))"
    using Cons.prems delete_one_subset [of flt ds] by auto
  have tl: "distinct (map fst (snd (delete_one flt ds)))"
    using Cons by simp
  show ?case
  proof (cases "matches flt d")
    case True
    with Cons.prems show ?thesis by simp
  next
    case False
    with fresh tl show ?thesis by (simp add: case_prod_unfold)
  qed
qed

lemma delete_one_removes:
  "unique_ids col \<Longrightarrow> fst (delete_one (IdEq oid) col) \<noteq> 0 \<Longrightarrow> oid \<notin> fst ` set (snd (delete_one (IdEq oid) col))"
  unfolding unique_ids_def
proof (induction col)
  case Nil
  then show ?case by simp
next
  case (Cons d ds)
  show ?case
  proof (cases "fst d = oid")
    case True
    with Cons.prems show ?thesis by (auto simp: image_iff)
  next
    case False
    with Cons show ?thesis by (auto split: prod.splits)
  qed
qed

lemma update_one_ids: "map fst (snd (update_one flt f col)) = map fst col"
  by (induction col) (auto split: prod.splits)

lemma update_one_find:
  "fst (update_one (IdEq oid) f col) \<noteq> 0 \<Longrightarrow>
   \<exists>d. find_one (IdEq oid) col = Some (oid, d) \<and>
       find_one (IdEq oid) (snd (update_one (IdEq oid) f col)) = Some (oid, d ++ encode_doc f)"
  by (induction col) (auto simp: find_one_def split: prod.splits if_splits)

lemma insert_one_unique:
  "unique_ids col \<Longrightarrow> insert_one oid d col = Inr (oid', col') \<Longrightarrow> unique_ids col'"
  by (auto simp: insert_one_def unique_ids_def split: if_splits)

lemma stringify_id_inject_fst: "stringify_id a = stringify_id b \<Longrightarrow> fst a = fst b"
proof -
  assume "stringify_id a = stringify_id b"
  then have "stringify_id a ''_id'' = stringify_id b ''_id''" by simp
  then show ?thesis by (simp add: stringify_id_def str_oid_eq_iff)
qed

lemma distinct_stringify:
  "unique_ids col \<Longrightarrow> distinct (map stringify_id (find_docs flt col))"
proof -
  assume u: "unique_ids col"
  have "distinct (map fst (filter (matches flt) col))"
    using u by (simp add: unique_ids_def distinct_map_filter)
  then have d: "distinct (filter (matches flt) col)" and i: "inj_on fst (set (filter (matches flt) col))"
    by (auto simp: distinct_map)
  have "inj_on stringify_id (set (filter (matches flt) col))"
  proof (rule inj_onI)
    fix x y
    assume x: "x \<in> set (filter (matches flt) col)" and y: "y \<in> set (filter (matches flt) col)"
      and e: "stringify_id x = stringify_id y"
    from e have "fst x = fst y" by (rule stringify_id_inject_fst)
    with i x y show "x = y" by (auto dest: inj_onD)
  qed
  with d show ?thesis by (simp add: find_docs_def distinct_map)
qed

lemma update_one_0: "update_one flt f col = (0, col') \<Longrightarrow> col' = col"
  using update_one_unmatched [of flt f col] by simp

lemma delete_one_0: "delete_one flt col = (0, col') \<Longrightarrow> col' = col"
  using delete_one_unmatched [of flt col] by simp

lemma update_one_pos:
  "update_one (IdEq oid) f col = (n, col') \<Longrightarrow> n \<noteq> 0 \<Longrightarrow>
   \<exists>d. find_one (IdEq oid) col = Some (oid, d) \<and> find_one (IdEq oid) col' = Some (oid, d ++ encode_doc f)"
  using update_one_find [of oid f col] by simp

lemma update_one_absent: "oid \<notin> fst ` set col \<Longrightarrow> update_one (IdEq oid) f col = (0, col)"
proof -
  assume a: "oid \<notin> fst ` set col"
  have "fst (update_one (IdEq oid) f col) = 0"
    using a by (auto simp: update_one_count)
  then show ?thesis
    using update_one_unmatched [of "IdEq oid" f col] by (simp add: prod_eq_iff)
qed

lemma delete_one_absent: "oid \<notin> fst ` set col \<Longrightarrow> delete_one (IdEq oid) col = (0, col)"
proof -
  assume a: "oid \<notin> fst ` set col"
  have "fst (delete_one (IdEq oid) col) = 0"
    using a by (auto simp: delete_one_count)
  then show ?thesis
    using delete_one_unmatched [of "IdEq oid" col] by (simp add: prod_eq_iff)
qed

lemma find_one_absent: "oid \<notin> fst ` set col \<Longrightarrow> find_one (IdEq oid) col = None"
  by (simp add: find_one_IdEq_None)

lemma delete_twice:
  "unique_ids col \<Longrightarrow> delete_one (IdEq oid) col = (n, col') \<Longrightarrow> n \<noteq> 0 \<Longrightarrow>
   delete_one (IdEq oid) col' = (0, col')"
proof -
  assume u: "unique_ids col" and d: "delete_one (IdEq oid) col = (n, col')" and n: "n \<noteq> 0"
  have "oid \<notin> fst ` set (snd (delete_one (IdEq oid) col))"
    using u n d by (intro delete_one_removes) simp_all
  then have "oid \<notin> fst ` set col'"
    using d by simp
  then show ?thesis by (rule delete_one_absent)
qed

lemma collect_map: "\<forall>x\<in>set xs. f x = Inr (g x) \<Longrightarrow> collect f xs = Inr (map g xs)"
  by (induction xs) auto

lemma bson_encode_opt_str: "bson_encode (opt_str v) = opt_str v"
  by (cases v) (simp_all add: opt_str_def)

lemma find_one_appended:
  "oid \<notin> fst ` set col \<Longrightarrow> find_one (IdEq oid) (col @ [(oid, d)]) = Some (oid, d)"
  by (induction col) (auto simp: find_one_def)

lemma update_one_unique: "unique_ids col \<Longrightarrow> unique_ids (snd (update_one flt f col))"
  by (simp add: unique_ids_def update_one_ids)

section \<open>Handler lemmas\<close>

lemma client_error_isl: "client_error r \<Longrightarrow> \<exists>e. r = Inl e"
  by (cases r) (auto simp: client_error_def)

lemma get_instructor_state: "snd (get_instructor s db) = db"
  by (simp add: get_instructor_def split: sum.splits option.splits)

lemma get_student_state: "snd (get_student s db) = db"
  by (simp add: get_student_def split: sum.splits option.splits)

lemma get_course_state: "snd (get_course s db) = db"
  by (simp add: get_course_def split: sum.splits option.splits)

lemma update_instructor_failure:
  "fst (update_instructor s d db) = Inl e \<Longrightarrow> snd (update_instructor s d db) = db"
  by (auto simp: update_instructor_def Let_def split: sum.splits prod.splits option.splits if_splits
      dest: update_one_0 update_one_pos)

lemma update_student_failure:
  "fst (update_student s d db) = Inl e \<Longrightarrow> snd (update_student s d db) = db"
  by (auto simp: update_student_def Let_def split: sum.splits prod.splits option.splits if_splits
      dest: update_one_0 update_one_pos)

lemma update_course_failure:
  "fst (update_course s d db) = Inl e \<Longrightarrow> snd (update_course s d db) = db"
  by (auto simp: update_course_def Let_def split: sum.splits prod.splits option.splits if_splits
      dest: update_one_0 update_one_pos)

lemma delete_instructor_failure:
  "fst (delete_instructor s db) = Inl e \<Longrightarrow> snd (delete_instructor s db) = db"
  by (auto simp: delete_instructor_def Let_def split: sum.splits prod.splits if_splits
      dest: delete_one_0)

lemma delete_student_failure:
  "fst (delete_student s db) = Inl e \<Longrightarrow> snd (delete_student s db) = db"
  by (auto simp: delete_student_def Let_def split: sum.splits prod.splits if_splits
      dest: delete_one_0)

lemma delete_course_failure:
  "fst (delete_course s db) = Inl e \<Longrightarrow> snd (delete_course s db) = db"
  by (auto simp: delete_course_def Let_def split: sum.splits prod.splits if_splits
      dest: delete_one_0)

lemma delete_enrollment_failure:
  "fst (delete_enrollment s db) = Inl e \<Longrightarrow> snd (delete_enrollment s db) = db"
  by (auto simp: delete_enrollment_def Let_def split: sum.splits prod.splits if_splits
      dest: delete_one_0)

lemma delete_instructor_twice:
  "unique_ids (instructors_col db) \<Longrightarrow> delete_instructor s db = (Inr (), db1) \<Longrightarrow>
   delete_instructor s db1 = (Inl (HTTPException 404 ''Instructor not found''), db1)"
proof -
  assume u: "unique_ids (instructors_col db)" and d: "delete_instructor s db = (Inr (), db1)"
  from d obtain oid where o: "ObjectId s = Inr oid"
    by (auto simp: delete_instructor_def split: sum.splits)
  obtain n col' where dl: "delete_one (IdEq oid) (instructors_col db) = (n, col')"
    by force
  from d o dl have n: "n \<noteq> 0" and db1: "db1 = db\<lparr>instructors_col := col'\<rparr>"
    by (auto simp: delete_instructor_def Let_def split: if_splits)
  from delete_twice [OF u dl n] show ?thesis
    by (simp add: delete_instructor_def o db1)
qed

lemma delete_student_twice:
  "unique_ids (students_col db) \<Longrightarrow> delete_student s db = (Inr (), db1) \<Longrightarrow>
   delete_student s db1 = (Inl (HTTPException 404 ''Student not found''), db1)"
proof -
  assume u: "unique_ids (students_col db)" and d: "delete_student s db = (Inr (), db1)"
  from d obtain oid where o: "ObjectId s = Inr oid"
    by (auto simp: delete_student_def split: sum.splits)
  obtain n col' where dl: "delete_one (IdEq oid) (students_col db) = (n, col')"
    by force
  from d o dl have n: "n \<noteq> 0" and db1: "db1 = db\<lparr>students_col := col'\<rparr>"
    by (auto simp: delete_student_def Let_def split: if_splits)
  from delete_twice [OF u dl n] show ?thesis
    by (simp add: delete_student_def o db1)
qed

lemma delete_course_twice:
  "unique_ids (courses_col db) \<Longrightarrow> delete_course s db = (Inr (), db1) \<Longrightarrow>
   delete_course s db1 = (Inl (HTTPException 404 ''Course not found''), db1)"
proof -
  assume u: "unique_ids (courses_col db)" and d: "delete_course s db = (Inr (), db1)"
  from d obtain oid where o: "ObjectId s = Inr oid"
    by (auto simp: delete_course_def split: sum.splits)
  obtain n col' where dl: "delete_one (IdEq oid) (courses_col db) = (n, col')"
    by force
  from d o dl have n: "n \<noteq> 0" and db1: "db1 = db\<lparr>courses_col := col'\<rparr>"
    by (auto simp: delete_course_def Let_def split: if_splits)
  from delete_twice [OF u dl n] show ?thesis
    by (simp add: delete_course_def o db1)
qed

lemma delete_enrollment_twice:
  "unique_ids (enrollments_col db) \<Longrightarrow> delete_enrollment s db = (Inr (), db1) \<Longrightarrow>
   delete_enrollment s db1 = (Inl (HTTPException 404 ''Enrollment not found''), db1)"
proof -
  assume u: "unique_ids (enrollments_col db)" and d: "delete_enrollment s db = (Inr (), db1)"
  from d obtain oid where o: "ObjectId s = Inr oid"
    by (auto simp: delete_enrollment_def split: sum.splits)
  obtain n col' where dl: "delete_one (IdEq oid) (enrollments_col db) = (n, col')"
    by force
  from d o dl have n: "n \<noteq> 0" and db1: "db1 = db\<lparr>enrollments_col := col'\<rparr>"
    by (auto simp: delete_enrollment_def Let_def split: if_splits)
  from delete_twice [OF u dl n] show ?thesis
    by (simp add: delete_enrollment_def o db1)
qed

lemma delete_instructor_frame:
  "students_col (snd (delete_instructor s db)) = students_col db \<and>
   courses_col (snd (delete_instructor s db)) = courses_col db \<and>
   enrollments_col (snd (delete_instructor s db)) = enrollments_col db"
  by (simp add: delete_instructor_def Let_def split: sum.splits prod.splits)

lemma delete_course_frame:
  "instructors_col (snd (delete_course s db)) = instructors_col db \<and>
   students_col (snd (delete_course s db)) = students_col db \<and>
   enrollments_col (snd (delete_course s db)) = enrollments_col db"
  by (simp add: delete_course_def Let_def split: sum.splits prod.splits)

lemma get_courses_by_instructor_reads:
  "courses_col a = courses_col b \<Longrightarrow>
   fst (get_courses_by_instructor s a) = fst (get_courses_by_instructor s b)"
  by (simp add: get_courses_by_instructor_def)

lemma get_students_of_course_reads:
  "enrollments_col a = enrollments_col b \<Longrightarrow> students_col a = students_col b \<Longrightarrow>
   fst (get_students_of_course s a) = fst (get_students_of_course s b)"
  by (simp add: get_students_of_course_def Let_def split: sum.splits)

lemma well_formed_ref_getitem:
  "well_formed_ref k e \<Longrightarrow> \<exists>s. getitem k e = Inr (BStr s) \<and> well_formed_id s"
  by (auto simp: well_formed_ref_def getitem_def split: option.splits bson.splits)

lemma well_formed_value:
  "well_formed_id s \<Longrightarrow> \<exists>oid. ObjectId_of_value (BStr s) = Inr [oid]"
  using ObjectId_well_formed [of s] by auto

lemma collect_refs:
  "list_all (well_formed_ref k) es \<Longrightarrow>
   \<exists>vs oids. collect (getitem k) es = Inr vs \<and> collect ObjectId_of_value vs = Inr oids"
proof (induction es)
  case Nil
  show ?case by simp
next
  case (Cons e es)
  then obtain vs oids where vs: "collect (getitem k) es = Inr vs"
    and oids: "collect ObjectId_of_value vs = Inr oids"
    by auto
  from Cons.prems obtain s where s: "getitem k e = Inr (BStr s)" and wf: "well_formed_id s"
    using well_formed_ref_getitem [of k e] by auto
  from wf obtain oid where oid: "ObjectId_of_value (BStr s) = Inr [oid]"
    using well_formed_value by blast
  have "collect (getitem k) (e # es) = Inr (BStr s # vs)"
    by (simp add: s vs)
  moreover have "collect ObjectId_of_value (BStr s # vs) = Inr ([oid] # oids)"
    using oid oids by simp
  ultimately show ?case by blast
qed

lemma encode_InstructorCreate_dict: "encode_doc (InstructorCreate_dict i) = InstructorCreate_dict i"
  by (rule ext) (simp add: encode_doc_def InstructorCreate_dict_def bson_encode_opt_str)

lemma encode_StudentCreate_dict: "encode_doc (StudentCreate_dict i) = StudentCreate_dict i"
  by (rule ext) (simp add: encode_doc_def StudentCreate_dict_def)

lemma encode_CourseCreate_dict: "encode_doc (CourseCreate_dict i) = CourseCreate_dict i"
  by (rule ext) (simp add: encode_doc_def CourseCreate_dict_def bson_encode_opt_str)

lemma update_instructor_success:
  "update_instructor s d db = (Inr doc, db1) \<Longrightarrow>
   \<exists>oid old. ObjectId s = Inr oid \<and>
     find_one (IdEq oid) (instructors_col db) = Some (oid, old) \<and>
     find_one (IdEq oid) (instructors_col db1) = Some (oid, old ++ InstructorCreate_dict d) \<and>
     doc = stringify_id (oid, old ++ InstructorCreate_dict d)"
proof -
  assume a: "update_instructor s d db = (Inr doc, db1)"
  from a obtain oid where o: "ObjectId s = Inr oid"
    by (auto simp: update_instructor_def split: sum.splits)
  obtain n col' where u: "update_one (IdEq oid) (InstructorCreate_dict d) (instructors_col db) = (n, col')"
    by force
  from a o u have n: "n \<noteq> 0" and db1: "db1 = db\<lparr>instructors_col := col'\<rparr>"
    by (auto simp: update_instructor_def Let_def split: if_splits option.splits)
  from update_one_pos [OF u n] obtain old where
    old: "find_one (IdEq oid) (instructors_col db) = Some (oid, old)"
    and new: "find_one (IdEq oid) col' = Some (oid, old ++ InstructorCreate_dict d)"
    by (auto simp: encode_InstructorCreate_dict)
  from a o u n new have "doc = stringify_id (oid, old ++ InstructorCreate_dict d)"
    by (simp add: update_instructor_def)
  with o old new db1 show ?thesis by simp
qed

lemma update_student_success:
  "update_student s d db = (Inr doc, db1) \<Longrightarrow>
   \<exists>oid old. ObjectId s = Inr oid \<and>
     find_one (IdEq oid) (students_col db) = Some (oid, old) \<and>
     find_one (IdEq oid) (students_col db1) = Some (oid, old ++ StudentCreate_dict d) \<and>
     doc = stringify_id (oid, old ++ StudentCreate_dict d)"
proof -
  assume a: "update_student s d db = (Inr doc, db1)"
  from a obtain oid where o: "ObjectId s = Inr oid"
    by (auto simp: update_student_def split: sum.splits)
  obtain n col' where u: "update_one (IdEq oid) (StudentCreate_dict d) (students_col db) = (n, col')"
    by force
  from a o u have n: "n \<noteq> 0" and db1: "db1 = db\<lparr>students_col := col'\<rparr>"
    by (auto simp: update_student_def Let_def split: if_splits option.splits)
  from update_one_pos [OF u n] obtain old where
    old: "find_one (IdEq oid) (students_col db) = Some (oid, old)"
    and new: "find_one (IdEq oid) col' = Some (oid, old ++ StudentCreate_dict d)"
    by (auto simp: encode_StudentCreate_dict)
  from a o u n new have "doc = stringify_id (oid, old ++ StudentCreate_dict d)"
    by (simp add: update_student_def)
  with o old new db1 show ?thesis by simp
qed

lemma update_course_success:
  "update_course s d db = (Inr doc, db1) \<Longrightarrow>
   \<exists>oid old. ObjectId s = Inr oid \<and>
     find_one (IdEq oid) (courses_col db) = Some (oid, old) \<and>
     find_one (IdEq oid) (courses_col db1) = Some (oid, old ++ CourseCreate_dict d) \<and>
     doc = stringify_id (oid, old ++ CourseCreate_dict d)"
proof -
  assume a: "update_course s d db = (Inr doc, db1)"
  from a obtain oid where o: "ObjectId s = Inr oid"
    by (auto simp: update_course_def split: sum.splits)
  obtain n col' where u: "update_one (IdEq oid) (CourseCreate_dict d) (courses_col db) = (n, col')"
    by force
  from a o u have n: "n \<noteq> 0" and db1: "db1 = db\<lparr>courses_col := col'\<rparr>"
    by (auto simp: update_course_def Let_def split: if_splits option.splits)
  from update_one_pos [OF u n] obtain old where
    old: "find_one (IdEq oid) (courses_col db) = Some (oid, old)"
    and new: "find_one (IdEq oid) col' = Some (oid, old ++ CourseCreate_dict d)"
    by (auto simp: encode_CourseCreate_dict)
  from a o u n new have "doc = stringify_id (oid, old ++ CourseCreate_dict d)"
    by (simp add: update_course_def)
  with o old new db1 show ?thesis by simp
qed

lemma set_InstructorCreate_fields:
  "(old ++ InstructorCreate_dict d) ''name'' = Some (BStr (InstructorCreate.name d))"
  "(old ++ InstructorCreate_dict d) ''email'' = Some (BStr (InstructorCreate.email d))"
  "(old ++ InstructorCreate_dict d) ''expertise'' = Some (opt_str (expertise d))"
  by (simp_all add: InstructorCreate_dict_def)

lemma set_StudentCreate_fields:
  "(old ++ StudentCreate_dict d) ''name'' = Some (BStr (StudentCreate.name d))"
  "(old ++ StudentCreate_dict d) ''email'' = Some (BStr (StudentCreate.email d))"
  by (simp_all add: StudentCreate_dict_def)

lemma set_CourseCreate_fields:
  "(old ++ CourseCreate_dict d) ''title'' = Some (BStr (title d))"
  "(old ++ CourseCreate_dict d) ''description'' = Some (opt_str (description d))"
  "(old ++ CourseCreate_dict d) ''instructor_id'' = Some (BStr (instructor_id d))"
  by (simp_all add: CourseCreate_dict_def)

lemma create_instructor_fresh:
  "new_id \<notin> fst ` set (instructors_col db) \<Longrightarrow>
   create_instructor new_id inp db =
     (Inr \<lparr>InstructorCreate.name = InstructorCreate.name inp,
           InstructorCreate.email = InstructorCreate.email inp,
           expertise = expertise inp, Instructor.id = Some (str_oid new_id)\<rparr>,
      db\<lparr>instructors_col := instructors_col db @ [(new_id, InstructorCreate_dict inp)]\<rparr>)"
  by (simp add: create_instructor_def insert_one_def encode_InstructorCreate_dict)

lemma create_student_fresh:
  "new_id \<notin> fst ` set (students_col db) \<Longrightarrow>
   create_student new_id inp db =
     (Inr \<lparr>StudentCreate.name = StudentCreate.name inp,
           StudentCreate.email = StudentCreate.email inp, Student.id = Some (str_oid new_id)\<rparr>,
      db\<lparr>students_col := students_col db @ [(new_id, StudentCreate_dict inp)]\<rparr>)"
  by (simp add: create_student_def insert_one_def encode_StudentCreate_dict)

lemma create_course_fresh:
  "new_id \<notin> fst ` set (courses_col db) \<Longrightarrow>
   create_course new_id inp db =
     (Inr \<lparr>title = title inp, description = description inp,
           instructor_id = instructor_id inp, Course.id = Some (str_oid new_id)\<rparr>,
      db\<lparr>courses_col := courses_col db @ [(new_id, CourseCreate_dict inp)]\<rparr>)"
  by (simp add: create_course_def insert_one_def encode_CourseCreate_dict)

lemma post_instructors_valid:
  "email_str (InstructorCreate.email b) = Some e \<Longrightarrow>
   post_instructors email_str new_id b db =
     create_instructor new_id (b\<lparr>InstructorCreate.email := e\<rparr>) db"
  by (simp add: post_instructors_def InstructorCreate_validate_def)

lemma post_students_valid:
  "email_str (StudentCreate.email b) = Some e \<Longrightarrow>
   post_students email_str new_id b db =
     create_student new_id (b\<lparr>StudentCreate.email := e\<rparr>) db"
  by (simp add: post_students_def StudentCreate_validate_def)

lemma put_instructor_valid:
  "email_str (InstructorCreate.email b) = Some e \<Longrightarrow>
   put_instructor email_str s b db = update_instructor s (b\<lparr>InstructorCreate.email := e\<rparr>) db"
  by (simp add: put_instructor_def InstructorCreate_validate_def)

lemma put_student_valid:
  "email_str (StudentCreate.email b) = Some e \<Longrightarrow>
   put_student email_str s b db = update_student s (b\<lparr>StudentCreate.email := e\<rparr>) db"
  by (simp add: put_student_def StudentCreate_validate_def)

subsection \<open>The storage invariant\<close>

lemma update_one_keeps_unique:
  "unique_ids col \<Longrightarrow> update_one flt f col = (n, col') \<Longrightarrow> unique_ids col'"
  using update_one_unique [of col flt f] by simp

lemma delete_one_keeps_unique:
  "unique_ids col \<Longrightarrow> delete_one flt col = (n, col') \<Longrightarrow> unique_ids col'"
  using delete_one_unique [of col flt] by simp

lemma empty_db_invariant: "storage_invariant empty_db"
  by (simp add: storage_invariant_def empty_db_def unique_ids_def)

lemma create_keeps_invariant:
  assumes "storage_invariant db"
  shows "storage_invariant (snd (create_instructor new_id i db))"
    and "storage_invariant (snd (create_student new_id s db))"
    and "storage_invariant (snd (create_course new_id c db))"
    and "storage_invariant (snd (enroll_student new_id e db))"
  using assms
  by (auto simp: storage_invariant_def create_instructor_def create_student_def
      create_course_def enroll_student_def split: sum.splits dest: insert_one_unique)

lemma update_keeps_invariant:
  assumes "storage_invariant db"
  shows "storage_invariant (snd (update_instructor x i db))"
    and "storage_invariant (snd (update_student x s db))"
    and "storage_invariant (snd (update_course x c db))"
  using assms
  by (auto simp: storage_invariant_def update_instructor_def update_student_def
      update_course_def Let_def split: sum.splits prod.splits option.splits
      dest: update_one_keeps_unique)

lemma delete_keeps_invariant:
  assumes "storage_invariant db"
  shows "storage_invariant (snd (delete_instructor x db))"
    and "storage_invariant (snd (delete_student x db))"
    and "storage_invariant (snd (delete_course x db))"
    and "storage_invariant (snd (delete_enrollment x db))"
  using assms
  by (auto simp: storage_invariant_def delete_instructor_def delete_student_def
      delete_course_def delete_enrollment_def Let_def split: sum.splits prod.splits
      dest: delete_one_keeps_unique)

section \<open>The scenario, evaluated\<close>

lemma not_found_examples:
  "get_instructor ''0000000000000000000000ff'' scenario_db =
     (Inl (HTTPException 404 ''Instructor not found''), scenario_db)"
  "update_instructor ''0000000000000000000000ff'' ada scenario_db =
     (Inl (HTTPException 404 ''Instructor not found''), scenario_db)"
  "delete_instructor ''0000000000000000000000ff'' scenario_db =
     (Inl (HTTPException 404 ''Instructor not found''), scenario_db)"
  "get_student ''0000000000000000000000ff'' scenario_db =
     (Inl (HTTPException 404 ''Student not found''), scenario_db)"
  "update_student ''0000000000000000000000ff'' bob scenario_db =
     (Inl (HTTPException 404 ''Student not found''), scenario_db)"
  "delete_student ''0000000000000000000000ff'' scenario_db =
     (Inl (HTTPException 404 ''Student not found''), scenario_db)"
  "get_course ''0000000000000000000000ff'' scenario_db =
     (Inl (HTTPException 404 ''Course not found''), scenario_db)"
  "update_course ''0000000000000000000000ff'' cs101 scenario_db =
     (Inl (HTTPException 404 ''Course not found''), scenario_db)"
  "delete_course ''0000000000000000000000ff'' scenario_db =
     (Inl (HTTPException 404 ''Course not found''), scenario_db)"
  "delete_enrollment ''0000000000000000000000ff'' scenario_db =
     (Inl (HTTPException 404 ''Enrollment not found''), scenario_db)"
  by (simp_all add: get_instructor_def update_instructor_def delete_instructor_def
      get_student_def update_student_def delete_student_def
      get_course_def update_course_def delete_course_def delete_enrollment_def
      ObjectId_ff scenario_db_def example_id_eq find_one_def)

lemma scenario_unique:
  "unique_ids (instructors_col scenario_db)" "unique_ids (students_col scenario_db)"
  "unique_ids (courses_col scenario_db)" "unique_ids (enrollments_col scenario_db)"
  by (simp_all add: unique_ids_def scenario_db_def example_id_eq)

lemma scenario_deletes:
  "delete_instructor ''000000000000000000000001'' scenario_db =
     (Inr (), scenario_db\<lparr>instructors_col := []\<rparr>)"
  "delete_student ''000000000000000000000003'' scenario_db =
     (Inr (), scenario_db\<lparr>students_col := []\<rparr>)"
  "delete_course ''000000000000000000000002'' scenario_db =
     (Inr (), scenario_db\<lparr>courses_col := []\<rparr>)"
  "delete_enrollment ''000000000000000000000004'' scenario_db =
     (Inr (), scenario_db\<lparr>enrollments_col := [(example_id 5, EnrollmentCreate_dict bob_in_cs101)]\<rparr>)"
  by (simp_all add: delete_instructor_def delete_student_def delete_course_def
      delete_enrollment_def ObjectId_1 ObjectId_2 ObjectId_3 ObjectId_4 scenario_db_def example_id_eq)

lemma scenario_courses_by_instructor:
  "fst (get_courses_by_instructor ''000000000000000000000001'' scenario_db) =
     Inr [(CourseCreate_dict cs101)(''_id'' \<mapsto> BStr ''000000000000000000000002'')]"
  by (simp add: get_courses_by_instructor_def find_docs_def scenario_db_def example_id_eq stringify_id_def
      str_oid_2 CourseCreate_dict_def cs101_def)

lemma scenario_refs: "list_all (well_formed_ref ''course_id'') (enrollments_col scenario_db)"
  by (simp add: scenario_db_def well_formed_ref_def EnrollmentCreate_dict_def bob_in_cs101_def
      well_formed_2)

lemma scenario_courses_of_student:
  "get_courses_of_student ''000000000000000000000003'' scenario_db =
     (Inr [(CourseCreate_dict cs101)(''_id'' \<mapsto> BStr ''000000000000000000000002'')], scenario_db)"
  by (simp add: get_courses_of_student_def find_docs_def scenario_db_def example_id_eq getitem_def
      EnrollmentCreate_dict_def bob_in_cs101_def ObjectId_2 stringify_id_def str_oid_2)

lemma scenario_fresh:
  "example_id 7 \<notin> fst ` set (instructors_col scenario_db)" "example_id 7 \<notin> fst ` set (students_col scenario_db)"
  "example_id 7 \<notin> fst ` set (courses_col scenario_db)"
  by (simp_all add: scenario_db_def example_id_eq)

lemma first_enrollment:
  "enrollment_router (import_module 1000000) \<lparr>utcnow = 5000000, new_oid = example_id 1\<rparr> POST []
     (EnrollmentBody enrollment_request) empty_db =
   (Inr (Created \<lparr>student_id = ''000000000000000000000003'',
                  course_id = ''000000000000000000000002'', timestamp = 1000000,
                  Enrollment.id = Some ''000000000000000000000001''\<rparr>),
    empty_db\<lparr>enrollments_col :=
      [(example_id 1, [''student_id'' \<mapsto> BStr ''000000000000000000000003'',
            ''course_id'' \<mapsto> BStr ''000000000000000000000002'',
            ''timestamp'' \<mapsto> BDate 1000000])]\<rparr>)"
proof -
  have e: "encode_doc [''student_id'' \<mapsto> BStr ''000000000000000000000003'',
            ''course_id'' \<mapsto> BStr ''000000000000000000000002'',
            ''timestamp'' \<mapsto> BDate 1000000] =
        [''student_id'' \<mapsto> BStr ''000000000000000000000003'',
            ''course_id'' \<mapsto> BStr ''000000000000000000000002'',
            ''timestamp'' \<mapsto> BDate 1000000]"
    by (rule ext) (simp add: encode_doc_def)
  show ?thesis
    by (simp add: enrollment_router_def lift_result_def enroll_student_def insert_one_def
        EnrollmentCreate_validate_def EnrollmentCreate_dict_def import_module_def
        enrollment_request_def empty_db_def str_oid_1 e)
qed

lemma encode_epoch_enrollment:
  "encode_doc (EnrollmentCreate_dict \<lparr>student_id = a, course_id = b, timestamp = 0\<rparr>) =
   EnrollmentCreate_dict \<lparr>student_id = a, course_id = b, timestamp = 0\<rparr>"
  by (rule ext) (simp add: encode_doc_def EnrollmentCreate_dict_def)

lemma second_enrollment:
  "enrollment_router (import_module 1000000) \<lparr>utcnow = 9000000, new_oid = example_id 2\<rparr> POST []
     (EnrollmentBody enrollment_request)
     (empty_db\<lparr>enrollments_col :=
        [(example_id 1, [''student_id'' \<mapsto> BStr ''000000000000000000000003'',
              ''course_id'' \<mapsto> BStr ''000000000000000000000002'',
              ''timestamp'' \<mapsto> BDate 1000000])]\<rparr>) =
   (Inr (Created \<lparr>student_id = ''000000000000000000000003'',
                  course_id = ''000000000000000000000002'', timestamp = 1000000,
                  Enrollment.id = Some ''000000000000000000000002''\<rparr>),
    empty_db\<lparr>enrollments_col :=
      [(example_id 1, [''student_id'' \<mapsto> BStr ''000000000000000000000003'',
            ''course_id'' \<mapsto> BStr ''000000000000000000000002'',
            ''timestamp'' \<mapsto> BDate 1000000]),
       (example_id 2, [''student_id'' \<mapsto> BStr ''000000000000000000000003'',
            ''course_id'' \<mapsto> BStr ''000000000000000000000002'',
            ''timestamp'' \<mapsto> BDate 1000000])]\<rparr>)"
proof -
  have e: "encode_doc [''student_id'' \<mapsto> BStr ''000000000000000000000003'',
            ''course_id'' \<mapsto> BStr ''000000000000000000000002'',
            ''timestamp'' \<mapsto> BDate 1000000] =
        [''student_id'' \<mapsto> BStr ''000000000000000000000003'',
            ''course_id'' \<mapsto> BStr ''000000000000000000000002'',
            ''timestamp'' \<mapsto> BDate 1000000]"
    by (rule ext) (simp add: encode_doc_def)
  show ?thesis
    by (simp add: enrollment_router_def lift_result_def enroll_student_def insert_one_def
        EnrollmentCreate_validate_def EnrollmentCreate_dict_def import_module_def
        enrollment_request_def empty_db_def example_id_eq str_oid_2 e)
qed

lemma lower_domain_examples:
  "lower_domain ''Ada@X.COM'' = Some ''Ada@x.com''"
  "lower_domain ''Bob@X.COM'' = Some ''Bob@x.com''"
  "lower_domain ''Ada@Y.ORG'' = Some ''Ada@y.org''"
  "lower_domain ''Bob@Y.ORG'' = Some ''Bob@y.org''"
  by code_simp+


lemma scenario_posts:
  "post_instructors lower_domain (example_id 7) ada_upper scenario_db =
     (Inr \<lparr>InstructorCreate.name = ''Ada'', InstructorCreate.email = ''Ada@x.com'',
           expertise = Some ''logic'', Instructor.id = Some ''000000000000000000000007''\<rparr>,
      scenario_db\<lparr>instructors_col := instructors_col scenario_db @
        [(example_id 7, InstructorCreate_dict (ada_upper\<lparr>InstructorCreate.email := ''Ada@x.com''\<rparr>))]\<rparr>)"
  "post_students lower_domain (example_id 7) bob_upper scenario_db =
     (Inr \<lparr>StudentCreate.name = ''Bob'', StudentCreate.email = ''Bob@x.com'',
           Student.id = Some ''000000000000000000000007''\<rparr>,
      scenario_db\<lparr>students_col := students_col scenario_db @
        [(example_id 7, StudentCreate_dict (bob_upper\<lparr>StudentCreate.email := ''Bob@x.com''\<rparr>))]\<rparr>)"
  "create_course (example_id 7) cs101_update scenario_db =
     (Inr \<lparr>title = ''CS102'', description = None,
           instructor_id = ''000000000000000000000001'',
           Course.id = Some ''000000000000000000000007''\<rparr>,
      scenario_db\<lparr>courses_col := courses_col scenario_db @
        [(example_id 7, CourseCreate_dict cs101_update)]\<rparr>)"
proof -
  have a: "post_instructors lower_domain (example_id 7) ada_upper scenario_db =
      create_instructor (example_id 7) (ada_upper\<lparr>InstructorCreate.email := ''Ada@x.com''\<rparr>) scenario_db"
    by (rule post_instructors_valid) (simp add: ada_upper_def lower_domain_examples)
  have b: "post_students lower_domain (example_id 7) bob_upper scenario_db =
      create_student (example_id 7) (bob_upper\<lparr>StudentCreate.email := ''Bob@x.com''\<rparr>) scenario_db"
    by (rule post_students_valid) (simp add: bob_upper_def lower_domain_examples)
  show "post_instructors lower_domain (example_id 7) ada_upper scenario_db =
     (Inr \<lparr>InstructorCreate.name = ''Ada'', InstructorCreate.email = ''Ada@x.com'',
           expertise = Some ''logic'', Instructor.id = Some ''000000000000000000000007''\<rparr>,
      scenario_db\<lparr>instructors_col := instructors_col scenario_db @
        [(example_id 7, InstructorCreate_dict (ada_upper\<lparr>InstructorCreate.email := ''Ada@x.com''\<rparr>))]\<rparr>)"
    unfolding a by (simp add: create_instructor_fresh scenario_fresh str_oid_7 ada_upper_def)
  show "post_students lower_domain (example_id 7) bob_upper scenario_db =
     (Inr \<lparr>StudentCreate.name = ''Bob'', StudentCreate.email = ''Bob@x.com'',
           Student.id = Some ''000000000000000000000007''\<rparr>,
      scenario_db\<lparr>students_col := students_col scenario_db @
        [(example_id 7, StudentCreate_dict (bob_upper\<lparr>StudentCreate.email := ''Bob@x.com''\<rparr>))]\<rparr>)"
    unfolding b by (simp add: create_student_fresh scenario_fresh str_oid_7 bob_upper_def)
  show "create_course (example_id 7) cs101_update scenario_db =
     (Inr \<lparr>title = ''CS102'', description = None,
           instructor_id = ''000000000000000000000001'',
           Course.id = Some ''000000000000000000000007''\<rparr>,
      scenario_db\<lparr>courses_col := courses_col scenario_db @
        [(example_id 7, CourseCreate_dict cs101_update)]\<rparr>)"
    by (simp add: create_course_fresh scenario_fresh str_oid_7 cs101_update_def)
qed

lemma scenario_gets:
  "get_instructor ''000000000000000000000007''
     (scenario_db\<lparr>instructors_col := instructors_col scenario_db @
        [(example_id 7, InstructorCreate_dict (ada_upper\<lparr>InstructorCreate.email := ''Ada@x.com''\<rparr>))]\<rparr>) =
   (Inr ((InstructorCreate_dict (ada_upper\<lparr>InstructorCreate.email := ''Ada@x.com''\<rparr>))
           (''_id'' \<mapsto> BStr ''000000000000000000000007'')),
    scenario_db\<lparr>instructors_col := instructors_col scenario_db @
        [(example_id 7, InstructorCreate_dict (ada_upper\<lparr>InstructorCreate.email := ''Ada@x.com''\<rparr>))]\<rparr>)"
  "get_student ''000000000000000000000007''
     (scenario_db\<lparr>students_col := students_col scenario_db @
        [(example_id 7, StudentCreate_dict (bob_upper\<lparr>StudentCreate.email := ''Bob@x.com''\<rparr>))]\<rparr>) =
   (Inr ((StudentCreate_dict (bob_upper\<lparr>StudentCreate.email := ''Bob@x.com''\<rparr>))
           (''_id'' \<mapsto> BStr ''000000000000000000000007'')),
    scenario_db\<lparr>students_col := students_col scenario_db @
        [(example_id 7, StudentCreate_dict (bob_upper\<lparr>StudentCreate.email := ''Bob@x.com''\<rparr>))]\<rparr>)"
  "get_course ''000000000000000000000007''
     (scenario_db\<lparr>courses_col := courses_col scenario_db @
        [(example_id 7, CourseCreate_dict cs101_update)]\<rparr>) =
   (Inr ((CourseCreate_dict cs101_update)(''_id'' \<mapsto> BStr ''000000000000000000000007'')),
    scenario_db\<lparr>courses_col := courses_col scenario_db @
        [(example_id 7, CourseCreate_dict cs101_update)]\<rparr>)"
  by (simp_all add: get_instructor_def get_student_def get_course_def ObjectId_7
      scenario_db_def example_id_eq find_one_def stringify_id_def str_oid_7)

lemma scenario_puts:
  "put_instructor lower_domain ''000000000000000000000001'' ada_update scenario_db =
     (Inr (stringify_id (example_id 1, InstructorCreate_dict ada ++
             InstructorCreate_dict (ada_update\<lparr>InstructorCreate.email := ''Ada@y.org''\<rparr>))),
      scenario_db\<lparr>instructors_col :=
        [(example_id 1, InstructorCreate_dict ada ++
             InstructorCreate_dict (ada_update\<lparr>InstructorCreate.email := ''Ada@y.org''\<rparr>))]\<rparr>)"
  "put_student lower_domain ''000000000000000000000003'' bob_update scenario_db =
     (Inr (stringify_id (example_id 3, StudentCreate_dict bob ++
             StudentCreate_dict (bob_update\<lparr>StudentCreate.email := ''Bob@y.org''\<rparr>))),
      scenario_db\<lparr>students_col :=
        [(example_id 3, StudentCreate_dict bob ++
             StudentCreate_dict (bob_update\<lparr>StudentCreate.email := ''Bob@y.org''\<rparr>))]\<rparr>)"
  "update_course ''000000000000000000000002'' cs101_update scenario_db =
     (Inr (stringify_id (example_id 2, CourseCreate_dict cs101 ++ CourseCreate_dict cs101_update)),
      scenario_db\<lparr>courses_col :=
        [(example_id 2, CourseCreate_dict cs101 ++ CourseCreate_dict cs101_update)]\<rparr>)"
proof -
  have a: "put_instructor lower_domain ''000000000000000000000001'' ada_update scenario_db =
      update_instructor ''000000000000000000000001''
        (ada_update\<lparr>InstructorCreate.email := ''Ada@y.org''\<rparr>) scenario_db"
    by (rule put_instructor_valid) (simp add: ada_update_def lower_domain_examples)
  have b: "put_student lower_domain ''000000000000000000000003'' bob_update scenario_db =
      update_student ''000000000000000000000003''
        (bob_update\<lparr>StudentCreate.email := ''Bob@y.org''\<rparr>) scenario_db"
    by (rule put_student_valid) (simp add: bob_update_def lower_domain_examples)
  show "put_instructor lower_domain ''000000000000000000000001'' ada_update scenario_db =
     (Inr (stringify_id (example_id 1, InstructorCreate_dict ada ++
             InstructorCreate_dict (ada_update\<lparr>InstructorCreate.email := ''Ada@y.org''\<rparr>))),
      scenario_db\<lparr>instructors_col :=
        [(example_id 1, InstructorCreate_dict ada ++
             InstructorCreate_dict (ada_update\<lparr>InstructorCreate.email := ''Ada@y.org''\<rparr>))]\<rparr>)"
    unfolding a
    by (simp add: update_instructor_def ObjectId_1 scenario_db_def find_one_def
        encode_InstructorCreate_dict)
  show "put_student lower_domain ''000000000000000000000003'' bob_update scenario_db =
     (Inr (stringify_id (example_id 3, StudentCreate_dict bob ++
             StudentCreate_dict (bob_update\<lparr>StudentCreate.email := ''Bob@y.org''\<rparr>))),
      scenario_db\<lparr>students_col :=
        [(example_id 3, StudentCreate_dict bob ++
             StudentCreate_dict (bob_update\<lparr>StudentCreate.email := ''Bob@y.org''\<rparr>))]\<rparr>)"
    unfolding b
    by (simp add: update_student_def ObjectId_3 scenario_db_def find_one_def
        encode_StudentCreate_dict)
  show "update_course ''000000000000000000000002'' cs101_update scenario_db =
     (Inr (stringify_id (example_id 2, CourseCreate_dict cs101 ++ CourseCreate_dict cs101_update)),
      scenario_db\<lparr>courses_col :=
        [(example_id 2, CourseCreate_dict cs101 ++ CourseCreate_dict cs101_update)]\<rparr>)"
    by (simp add: update_course_def ObjectId_2 scenario_db_def find_one_def
        encode_CourseCreate_dict)
qed

lemma scenario_put_facts:
  "lower_domain (InstructorCreate.email ada_update) = Some ''Ada@y.org''"
  "lower_domain (StudentCreate.email bob_update) = Some ''Bob@y.org''"
  "InstructorCreate.email ada_update = ''Ada@Y.ORG''"
  "expertise ada_update = None"
  "description cs101_update = None"
  "InstructorCreate_dict ada ''expertise'' = Some (BStr ''logic'')"
  "CourseCreate_dict cs101 ''description'' = Some (BStr ''Intro'')"
  by (simp_all add: ada_update_def bob_update_def cs101_update_def lower_domain_examples
      InstructorCreate_dict_def CourseCreate_dict_def ada_def cs101_def opt_str_def)

section \<open>Claims\<close>

subsection \<open>Default timestamp of an enrollment\<close>

text \<open>
  Claim C1 says that an enrollment created without a timestamp gets the time of the
  create call, so that two such enrollments created at different times differ. The
  code gives both the time at which the module was imported: here the module is
  imported at 1000000, the two requests arrive at 5000000 and 9000000, and both
  enrollments are returned and stored with the timestamp 1000000.
\<close>

theorem default_timestamp_is_import_time:
  "body_timestamp enrollment_request = None \<and>
   enrollment_router (import_module 1000000) \<lparr>utcnow = 5000000, new_oid = example_id 1\<rparr> POST []
     (EnrollmentBody enrollment_request) empty_db =
   (Inr (Created \<lparr>student_id = ''000000000000000000000003'',
                  course_id = ''000000000000000000000002'', timestamp = 1000000,
                  Enrollment.id = Some ''000000000000000000000001''\<rparr>),
    empty_db\<lparr>enrollments_col :=
      [(example_id 1, [''student_id'' \<mapsto> BStr ''000000000000000000000003'',
            ''course_id'' \<mapsto> BStr ''000000000000000000000002'',
            ''timestamp'' \<mapsto> BDate 1000000])]\<rparr>) \<and>
   enrollment_router (import_module 1000000) \<lparr>utcnow = 9000000, new_oid = example_id 2\<rparr> POST []
     (EnrollmentBody enrollment_request)
     (empty_db\<lparr>enrollments_col :=
        [(example_id 1, [''student_id'' \<mapsto> BStr ''000000000000000000000003'',
              ''course_id'' \<mapsto> BStr ''000000000000000000000002'',
              ''timestamp'' \<mapsto> BDate 1000000])]\<rparr>) =
   (Inr (Created \<lparr>student_id = ''000000000000000000000003'',
                  course_id = ''000000000000000000000002'', timestamp = 1000000,
                  Enrollment.id = Some ''000000000000000000000002''\<rparr>),
    empty_db\<lparr>enrollments_col :=
      [(example_id 1, [''student_id'' \<mapsto> BStr ''000000000000000000000003'',
            ''course_id'' \<mapsto> BStr ''000000000000000000000002'',
            ''timestamp'' \<mapsto> BDate 1000000]),
       (example_id 2, [''student_id'' \<mapsto> BStr ''000000000000000000000003'',
            ''course_id'' \<mapsto> BStr ''000000000000000000000002'',
            ''timestamp'' \<mapsto> BDate 1000000])]\<rparr>)"
  using first_enrollment second_enrollment by (simp add: enrollment_request_def)

subsection \<open>Malformed references in the relational queries\<close>

text \<open>
  Claim C2 says that a course or student reference that is not a well-formed
  identifier makes coursesOfStudent and studentsOfCourse fail with InvalidIdentifier, the
  400 client error. In the code the whole request fails, but with the codec's exception
  itself, which neither handler catches, where get_course and get_student on the same
  string answer with the 400 HTTPException. The first conjunct shows that
  \<open>POST /enrollments\<close> stores such a reference.
\<close>

theorem malformed_reference_is_uncaught:
  "enroll_student (example_id 6) \<lparr>student_id = ''000000000000000000000003'', course_id = ''not-an-id'',
                     timestamp = 0\<rparr>
     (scenario_db\<lparr>enrollments_col :=
        [(example_id 4, EnrollmentCreate_dict bob_in_cs101), (example_id 5, EnrollmentCreate_dict bob_in_cs101)]\<rparr>) =
   (Inr \<lparr>student_id = ''000000000000000000000003'', course_id = ''not-an-id'', timestamp = 0,
         Enrollment.id = Some ''000000000000000000000006''\<rparr>,
    scenario_db\<lparr>enrollments_col :=
       [(example_id 4, EnrollmentCreate_dict bob_in_cs101), (example_id 5, EnrollmentCreate_dict bob_in_cs101),
        (example_id 6, EnrollmentCreate_dict
              \<lparr>student_id = ''000000000000000000000003'', course_id = ''not-an-id'',
               timestamp = 0\<rparr>)]\<rparr>) \<and>
   get_courses_of_student ''000000000000000000000003'' dangling_db =
     (Inl (InvalidId ''not-an-id''), dangling_db) \<and>
   get_students_of_course ''000000000000000000000002'' dangling_db =
     (Inl (InvalidId ''not-an-id''), dangling_db) \<and>
   get_course ''not-an-id'' dangling_db =
     (Inl (HTTPException 400 ''Invalid id format''), dangling_db) \<and>
   get_student ''not-an-id'' dangling_db =
     (Inl (HTTPException 400 ''Invalid id format''), dangling_db)"
proof -
  have s6: "str_oid (example_id 6) = ''000000000000000000000006''"
    by code_simp
  have a: "enroll_student (example_id 6) \<lparr>student_id = ''000000000000000000000003'', course_id = ''not-an-id'',
                     timestamp = 0\<rparr>
     (scenario_db\<lparr>enrollments_col :=
        [(example_id 4, EnrollmentCreate_dict bob_in_cs101), (example_id 5, EnrollmentCreate_dict bob_in_cs101)]\<rparr>) =
   (Inr \<lparr>student_id = ''000000000000000000000003'', course_id = ''not-an-id'', timestamp = 0,
         Enrollment.id = Some ''000000000000000000000006''\<rparr>,
    scenario_db\<lparr>enrollments_col :=
       [(example_id 4, EnrollmentCreate_dict bob_in_cs101), (example_id 5, EnrollmentCreate_dict bob_in_cs101),
        (example_id 6, EnrollmentCreate_dict
              \<lparr>student_id = ''000000000000000000000003'', course_id = ''not-an-id'',
               timestamp = 0\<rparr>)]\<rparr>)"
    by (simp add: enroll_student_def insert_one_def encode_epoch_enrollment s6 example_id_eq)
  have b: "get_courses_of_student ''000000000000000000000003'' dangling_db =
     (Inl (InvalidId ''not-an-id''), dangling_db)"
    by (simp add: get_courses_of_student_def find_docs_def dangling_db_def scenario_db_def example_id_eq
        getitem_def EnrollmentCreate_dict_def bob_in_cs101_def ObjectId_2 ObjectId_not_an_id)
  have c: "get_students_of_course ''000000000000000000000002'' dangling_db =
     (Inl (InvalidId ''not-an-id''), dangling_db)"
    by (simp add: get_students_of_course_def find_docs_def dangling_db_def scenario_db_def example_id_eq
        getitem_def EnrollmentCreate_dict_def bob_in_cs101_def ObjectId_3 ObjectId_not_an_id)
  have d: "get_course ''not-an-id'' dangling_db =
     (Inl (HTTPException 400 ''Invalid id format''), dangling_db)"
    by (simp add: get_course_def ObjectId_not_an_id)
  have e: "get_student ''not-an-id'' dangling_db =
     (Inl (HTTPException 400 ''Invalid id format''), dangling_db)"
    by (simp add: get_student_def ObjectId_not_an_id)
  from a b c d e show ?thesis by blast
qed

subsection \<open>Create, then read\<close>

text \<open>
  Claim C3, as the code has it. For every body that passes the validation of the schema,
  create followed by getById on the identifier create returned yields the validated
  input, which is the body with its address as the validation returns it, plus the
  assigned identifier, for the three entity services that have a getById: Instructor,
  Student and Course. The condition is that the ObjectId the driver makes, of twelve
  bytes, is new to the collection; create then returns.
\<close>

theorem create_then_get_by_id:
  "(email_str (InstructorCreate.email instructor) = Some e \<and> length new_id = 12 \<and>
    new_id \<notin> fst ` set (instructors_col db) \<longrightarrow>
      (\<exists>r db1 sid. post_instructors email_str new_id instructor db = (Inr r, db1) \<and>
         Instructor.id r = Some sid \<and>
         InstructorCreate.name r = InstructorCreate.name instructor \<and>
         InstructorCreate.email r = e \<and>
         expertise r = expertise instructor \<and>
         get_instructor sid db1 =
           (Inr ((InstructorCreate_dict (instructor\<lparr>InstructorCreate.email := e\<rparr>))
                   (''_id'' \<mapsto> BStr sid)), db1))) \<and>
   (email_str (StudentCreate.email student) = Some e \<and> length new_id = 12 \<and>
    new_id \<notin> fst ` set (students_col db) \<longrightarrow>
      (\<exists>r db1 sid. post_students email_str new_id student db = (Inr r, db1) \<and>
         Student.id r = Some sid \<and>
         StudentCreate.name r = StudentCreate.name student \<and>
         StudentCreate.email r = e \<and>
         get_student sid db1 =
           (Inr ((StudentCreate_dict (student\<lparr>StudentCreate.email := e\<rparr>))
                   (''_id'' \<mapsto> BStr sid)), db1))) \<and>
   (length new_id = 12 \<and> new_id \<notin> fst ` set (courses_col db) \<longrightarrow>
      (\<exists>r db1 sid. create_course new_id course db = (Inr r, db1) \<and>
         Course.id r = Some sid \<and>
         title r = title course \<and> description r = description course \<and>
         instructor_id r = instructor_id course \<and>
         get_course sid db1 =
           (Inr ((CourseCreate_dict course)(''_id'' \<mapsto> BStr sid)), db1)))"
  by (simp add: post_instructors_valid post_students_valid
      create_instructor_fresh create_student_fresh create_course_fresh
      get_instructor_def get_student_def get_course_def ObjectId_str_oid find_one_appended
      stringify_id_def)

text \<open>
  The same in the scenario, with the new identifier ending in 07.
\<close>

theorem create_then_get_by_id_witness:
  "lower_domain (InstructorCreate.email ada_upper) = Some ''Ada@x.com'' \<and>
   lower_domain (StudentCreate.email bob_upper) = Some ''Bob@x.com'' \<and>
   length (example_id 7) = 12 \<and>
   example_id 7 \<notin> fst ` set (instructors_col scenario_db) \<and>
   example_id 7 \<notin> fst ` set (students_col scenario_db) \<and>
   example_id 7 \<notin> fst ` set (courses_col scenario_db) \<and>
   (\<exists>r db1. post_instructors lower_domain (example_id 7) ada_upper scenario_db = (Inr r, db1) \<and>
      Instructor.id r = Some ''000000000000000000000007'' \<and>
      InstructorCreate.email r = ''Ada@x.com'' \<and>
      get_instructor ''000000000000000000000007'' db1 =
        (Inr ((InstructorCreate_dict (ada_upper\<lparr>InstructorCreate.email := ''Ada@x.com''\<rparr>))
                (''_id'' \<mapsto> BStr ''000000000000000000000007'')), db1)) \<and>
   (\<exists>r db1. post_students lower_domain (example_id 7) bob_upper scenario_db = (Inr r, db1) \<and>
      Student.id r = Some ''000000000000000000000007'' \<and>
      StudentCreate.email r = ''Bob@x.com'' \<and>
      get_student ''000000000000000000000007'' db1 =
        (Inr ((StudentCreate_dict (bob_upper\<lparr>StudentCreate.email := ''Bob@x.com''\<rparr>))
                (''_id'' \<mapsto> BStr ''000000000000000000000007'')), db1)) \<and>
   (\<exists>r db1. create_course (example_id 7) cs101_update scenario_db = (Inr r, db1) \<and>
      Course.id r = Some ''000000000000000000000007'' \<and>
      get_course ''000000000000000000000007'' db1 =
        (Inr ((CourseCreate_dict cs101_update)(''_id'' \<mapsto> BStr ''000000000000000000000007'')), db1))"
proof -
  have ea: "lower_domain (InstructorCreate.email ada_upper) = Some ''Ada@x.com''"
    and eb: "lower_domain (StudentCreate.email bob_upper) = Some ''Bob@x.com''"
    by (simp_all add: ada_upper_def bob_upper_def lower_domain_examples)
  have i: "\<exists>r db1. post_instructors lower_domain (example_id 7) ada_upper scenario_db = (Inr r, db1) \<and>
      Instructor.id r = Some ''000000000000000000000007'' \<and>
      InstructorCreate.email r = ''Ada@x.com'' \<and>
      get_instructor ''000000000000000000000007'' db1 =
        (Inr ((InstructorCreate_dict (ada_upper\<lparr>InstructorCreate.email := ''Ada@x.com''\<rparr>))
                (''_id'' \<mapsto> BStr ''000000000000000000000007'')), db1)"
    using create_then_get_by_id [of lower_domain ada_upper "''Ada@x.com''" "example_id 7" scenario_db]
      ea length_example_id [of 7] scenario_fresh(1)
    by (auto simp: scenario_posts(1))
  have s: "\<exists>r db1. post_students lower_domain (example_id 7) bob_upper scenario_db = (Inr r, db1) \<and>
      Student.id r = Some ''000000000000000000000007'' \<and>
      StudentCreate.email r = ''Bob@x.com'' \<and>
      get_student ''000000000000000000000007'' db1 =
        (Inr ((StudentCreate_dict (bob_upper\<lparr>StudentCreate.email := ''Bob@x.com''\<rparr>))
                (''_id'' \<mapsto> BStr ''000000000000000000000007'')), db1)"
    using create_then_get_by_id [of lower_domain _ "''Bob@x.com''" "example_id 7" scenario_db bob_upper]
      eb length_example_id [of 7] scenario_fresh(2)
    by (auto simp: scenario_posts(2))
  have c: "\<exists>r db1. create_course (example_id 7) cs101_update scenario_db = (Inr r, db1) \<and>
      Course.id r = Some ''000000000000000000000007'' \<and>
      get_course ''000000000000000000000007'' db1 =
        (Inr ((CourseCreate_dict cs101_update)(''_id'' \<mapsto> BStr ''000000000000000000000007'')), db1)"
    using create_then_get_by_id [of _ _ _ "example_id 7" scenario_db _ cs101_update]
      length_example_id [of 7] scenario_fresh(3)
    by (auto simp: scenario_posts(3))
  show ?thesis
    using i s c ea eb length_example_id [of 7] scenario_fresh by blast
qed

text \<open>
  Claim C3 as stated fails twice. An instructor sent with the address \<open>Ada@X.COM\<close> is
  stored and read back with \<open>Ada@x.com\<close>, which is not the input. And the claim speaks of
  four entity services, where the Enrollment router has no route that reads one
  enrollment: a GET on the identifier that \<open>POST /enrollments\<close> just returned fits the
  path of the DELETE route only and is answered 405.
\<close>

theorem stored_record_is_not_the_input:
  "InstructorCreate.email ada_upper = ''Ada@X.COM'' \<and>
   post_instructors lower_domain (example_id 7) ada_upper scenario_db =
     (Inr \<lparr>InstructorCreate.name = ''Ada'', InstructorCreate.email = ''Ada@x.com'',
           expertise = Some ''logic'', Instructor.id = Some ''000000000000000000000007''\<rparr>,
      scenario_db\<lparr>instructors_col := instructors_col scenario_db @
        [(example_id 7, InstructorCreate_dict (ada_upper\<lparr>InstructorCreate.email := ''Ada@x.com''\<rparr>))]\<rparr>) \<and>
   get_instructor ''000000000000000000000007''
     (scenario_db\<lparr>instructors_col := instructors_col scenario_db @
        [(example_id 7, InstructorCreate_dict (ada_upper\<lparr>InstructorCreate.email := ''Ada@x.com''\<rparr>))]\<rparr>) =
   (Inr ((InstructorCreate_dict (ada_upper\<lparr>InstructorCreate.email := ''Ada@x.com''\<rparr>))
           (''_id'' \<mapsto> BStr ''000000000000000000000007'')),
    scenario_db\<lparr>instructors_col := instructors_col scenario_db @
        [(example_id 7, InstructorCreate_dict (ada_upper\<lparr>InstructorCreate.email := ''Ada@x.com''\<rparr>))]\<rparr>) \<and>
   ((InstructorCreate_dict (ada_upper\<lparr>InstructorCreate.email := ''Ada@x.com''\<rparr>))
      (''_id'' \<mapsto> BStr ''000000000000000000000007'')) ''email'' = Some (BStr ''Ada@x.com'') \<and>
   ''Ada@x.com'' \<noteq> ''Ada@X.COM'' \<and>
   fst (enrollment_router (import_module 1000000) \<lparr>utcnow = 5000000, new_oid = example_id 1\<rparr> POST []
     (EnrollmentBody enrollment_request) empty_db) =
   Inr (Created \<lparr>student_id = ''000000000000000000000003'',
                 course_id = ''000000000000000000000002'', timestamp = 1000000,
                 Enrollment.id = Some ''000000000000000000000001''\<rparr>) \<and>
   fst (enrollment_router (import_module 1000000) \<lparr>utcnow = 6000000, new_oid = example_id 2\<rparr> GET
     [''000000000000000000000001''] NoBody
     (snd (enrollment_router (import_module 1000000) \<lparr>utcnow = 5000000, new_oid = example_id 1\<rparr> POST []
        (EnrollmentBody enrollment_request) empty_db))) =
   Inl (HTTPException 405 ''Method Not Allowed'')"
proof -
  have e: "InstructorCreate.email ada_upper = ''Ada@X.COM''"
    by (simp add: ada_upper_def)
  have f: "((InstructorCreate_dict (ada_upper\<lparr>InstructorCreate.email := ''Ada@x.com''\<rparr>))
      (''_id'' \<mapsto> BStr ''000000000000000000000007'')) ''email'' = Some (BStr ''Ada@x.com'')"
    by (simp add: InstructorCreate_dict_def)
  have n: "''Ada@x.com'' \<noteq> ''Ada@X.COM''"
    by simp
  have g: "fst (enrollment_router (import_module 1000000) \<lparr>utcnow = 6000000, new_oid = example_id 2\<rparr> GET
     [''000000000000000000000001''] NoBody
     (snd (enrollment_router (import_module 1000000) \<lparr>utcnow = 5000000, new_oid = example_id 1\<rparr> POST []
        (EnrollmentBody enrollment_request) empty_db))) =
   Inl (HTTPException 405 ''Method Not Allowed'')"
    by (simp add: enrollment_router_def method_not_allowed_def)
  show ?thesis
    using e f n g scenario_posts(1) scenario_gets(1) first_enrollment by simp
qed

subsection \<open>Malformed identifiers\<close>




subsection \<open>Absent identifiers\<close>

text \<open>
  Claim C5. For every well-formed identifier with no matching record in the entity's
  collection, getById, update and deleteById fail with NotFound (HTTP 404).
\<close>

theorem absent_id_is_not_found:
  "ObjectId s = Inr oid \<Longrightarrow>
     (oid \<notin> fst ` set (instructors_col db) \<longrightarrow>
        get_instructor s db = (Inl (HTTPException 404 ''Instructor not found''), db) \<and>
        update_instructor s idata db = (Inl (HTTPException 404 ''Instructor not found''), db) \<and>
        delete_instructor s db = (Inl (HTTPException 404 ''Instructor not found''), db)) \<and>
     (oid \<notin> fst ` set (students_col db) \<longrightarrow>
        get_student s db = (Inl (HTTPException 404 ''Student not found''), db) \<and>
        update_student s sdata db = (Inl (HTTPException 404 ''Student not found''), db) \<and>
        delete_student s db = (Inl (HTTPException 404 ''Student not found''), db)) \<and>
     (oid \<notin> fst ` set (courses_col db) \<longrightarrow>
        get_course s db = (Inl (HTTPException 404 ''Course not found''), db) \<and>
        update_course s cdata db = (Inl (HTTPException 404 ''Course not found''), db) \<and>
        delete_course s db = (Inl (HTTPException 404 ''Course not found''), db)) \<and>
     (oid \<notin> fst ` set (enrollments_col db) \<longrightarrow>
        delete_enrollment s db = (Inl (HTTPException 404 ''Enrollment not found''), db))"
  by (simp add: get_instructor_def update_instructor_def delete_instructor_def
        get_student_def update_student_def delete_student_def
        get_course_def update_course_def delete_course_def delete_enrollment_def
        find_one_absent update_one_absent delete_one_absent)

text \<open>The same at the identifier \<open>0000000000000000000000ff\<close>, which the scenario does not hold.\<close>

theorem absent_id_is_not_found_witness:
  "ObjectId ''0000000000000000000000ff'' = Inr (example_id 255) \<and>
   example_id 255 \<notin> fst ` set (instructors_col scenario_db) \<and>
   example_id 255 \<notin> fst ` set (students_col scenario_db) \<and>
   example_id 255 \<notin> fst ` set (courses_col scenario_db) \<and>
   example_id 255 \<notin> fst ` set (enrollments_col scenario_db) \<and>
   get_instructor ''0000000000000000000000ff'' scenario_db =
     (Inl (HTTPException 404 ''Instructor not found''), scenario_db) \<and>
   update_student ''0000000000000000000000ff'' bob scenario_db =
     (Inl (HTTPException 404 ''Student not found''), scenario_db) \<and>
   delete_course ''0000000000000000000000ff'' scenario_db =
     (Inl (HTTPException 404 ''Course not found''), scenario_db) \<and>
   delete_enrollment ''0000000000000000000000ff'' scenario_db =
     (Inl (HTTPException 404 ''Enrollment not found''), scenario_db)"
proof -
  have a: "example_id 255 \<notin> fst ` set (instructors_col scenario_db)"
    and b: "example_id 255 \<notin> fst ` set (students_col scenario_db)"
    and c: "example_id 255 \<notin> fst ` set (courses_col scenario_db)"
    and d: "example_id 255 \<notin> fst ` set (enrollments_col scenario_db)"
    by (simp_all add: scenario_db_def example_id_eq)
  show ?thesis
    using absent_id_is_not_found [OF ObjectId_ff, of scenario_db ada bob cs101] ObjectId_ff a b c d
    by blast
qed

subsection \<open>Deleting twice\<close>

text \<open>
  Claim C6. deleteById is idempotent in effect: after a successful delete, a second
  deleteById on the same identifier fails with NotFound (HTTP 404), a structured client
  error and no crash, and leaves the storage state unchanged. The storage keeps the
  \<open>_id\<close> of a collection unique, which is the condition \<open>unique_ids\<close>.
\<close>

theorem second_delete_is_not_found:
  "(unique_ids (instructors_col db) \<and> delete_instructor s db = (Inr (), db1) \<longrightarrow>
      delete_instructor s db1 = (Inl (HTTPException 404 ''Instructor not found''), db1)) \<and>
   (unique_ids (students_col db) \<and> delete_student s db = (Inr (), db1) \<longrightarrow>
      delete_student s db1 = (Inl (HTTPException 404 ''Student not found''), db1)) \<and>
   (unique_ids (courses_col db) \<and> delete_course s db = (Inr (), db1) \<longrightarrow>
      delete_course s db1 = (Inl (HTTPException 404 ''Course not found''), db1)) \<and>
   (unique_ids (enrollments_col db) \<and> delete_enrollment s db = (Inr (), db1) \<longrightarrow>
      delete_enrollment s db1 = (Inl (HTTPException 404 ''Enrollment not found''), db1))"
  using delete_instructor_twice [of db s db1] delete_student_twice [of db s db1]
    delete_course_twice [of db s db1] delete_enrollment_twice [of db s db1]
  by blast

text \<open>
  The same in the scenario, for one record of each of the four collections.
\<close>

theorem second_delete_is_not_found_witness:
  "unique_ids (instructors_col scenario_db) \<and>
   delete_instructor ''000000000000000000000001'' scenario_db =
     (Inr (), scenario_db\<lparr>instructors_col := []\<rparr>) \<and>
   delete_instructor ''000000000000000000000001'' (scenario_db\<lparr>instructors_col := []\<rparr>) =
     (Inl (HTTPException 404 ''Instructor not found''), scenario_db\<lparr>instructors_col := []\<rparr>) \<and>
   unique_ids (students_col scenario_db) \<and>
   delete_student ''000000000000000000000003'' scenario_db =
     (Inr (), scenario_db\<lparr>students_col := []\<rparr>) \<and>
   delete_student ''000000000000000000000003'' (scenario_db\<lparr>students_col := []\<rparr>) =
     (Inl (HTTPException 404 ''Student not found''), scenario_db\<lparr>students_col := []\<rparr>) \<and>
   unique_ids (courses_col scenario_db) \<and>
   delete_course ''000000000000000000000002'' scenario_db =
     (Inr (), scenario_db\<lparr>courses_col := []\<rparr>) \<and>
   delete_course ''000000000000000000000002'' (scenario_db\<lparr>courses_col := []\<rparr>) =
     (Inl (HTTPException 404 ''Course not found''), scenario_db\<lparr>courses_col := []\<rparr>) \<and>
   unique_ids (enrollments_col scenario_db) \<and>
   delete_enrollment ''000000000000000000000004'' scenario_db =
     (Inr (), scenario_db\<lparr>enrollments_col := [(example_id 5, EnrollmentCreate_dict bob_in_cs101)]\<rparr>) \<and>
   delete_enrollment ''000000000000000000000004''
       (scenario_db\<lparr>enrollments_col := [(example_id 5, EnrollmentCreate_dict bob_in_cs101)]\<rparr>) =
     (Inl (HTTPException 404 ''Enrollment not found''),
      scenario_db\<lparr>enrollments_col := [(example_id 5, EnrollmentCreate_dict bob_in_cs101)]\<rparr>)"
  using second_delete_is_not_found [of scenario_db "''000000000000000000000001''"
      "scenario_db\<lparr>instructors_col := []\<rparr>"]
    second_delete_is_not_found [of scenario_db "''000000000000000000000003''"
      "scenario_db\<lparr>students_col := []\<rparr>"]
    second_delete_is_not_found [of scenario_db "''000000000000000000000002''"
      "scenario_db\<lparr>courses_col := []\<rparr>"]
    second_delete_is_not_found [of scenario_db "''000000000000000000000004''"
      "scenario_db\<lparr>enrollments_col := [(example_id 5, EnrollmentCreate_dict bob_in_cs101)]\<rparr>"]
    scenario_unique scenario_deletes
  by blast

subsection \<open>No duplicate courses\<close>

text \<open>
  Claim C7. For every student identifier and every storage state in which all
  enrollment course references are well-formed, coursesOfStudent returns a sequence
  that contains each Course record at most once, even when several Enrollment records
  of that student reference the same course.
\<close>

theorem courses_of_student_no_duplicates:
  "unique_ids (courses_col db) \<Longrightarrow>
   list_all (well_formed_ref ''course_id'') (enrollments_col db) \<Longrightarrow>
   \<exists>docs. get_courses_of_student sid db = (Inr docs, db) \<and> distinct docs"
proof -
  assume u: "unique_ids (courses_col db)"
    and wf: "list_all (well_formed_ref ''course_id'') (enrollments_col db)"
  let ?enrolls = "find_docs (FieldEq ''student_id'' (BStr sid)) (enrollments_col db)"
  have "list_all (well_formed_ref ''course_id'') ?enrolls"
    using wf by (simp add: find_docs_def list_all_iff)
  then obtain vs oids where vs: "collect (getitem ''course_id'') ?enrolls = Inr vs"
    and oids: "collect ObjectId_of_value vs = Inr oids"
    using collect_refs by blast
  have "get_courses_of_student sid db =
      (Inr (map stringify_id (find_docs (IdIn (concat oids)) (courses_col db))), db)"
    by (simp add: get_courses_of_student_def vs oids)
  with distinct_stringify [OF u] show ?thesis by simp
qed

text \<open>
  The same in the scenario, where the student is enrolled twice in the one course.
\<close>

theorem courses_of_student_no_duplicates_witness:
  "unique_ids (courses_col scenario_db) \<and>
   list_all (well_formed_ref ''course_id'') (enrollments_col scenario_db) \<and>
   length (find_docs (FieldEq ''student_id'' (BStr ''000000000000000000000003''))
             (enrollments_col scenario_db)) = 2 \<and>
   get_courses_of_student ''000000000000000000000003'' scenario_db =
     (Inr [(CourseCreate_dict cs101)(''_id'' \<mapsto> BStr ''000000000000000000000002'')], scenario_db) \<and>
   distinct [(CourseCreate_dict cs101)(''_id'' \<mapsto> BStr ''000000000000000000000002'')]"
proof -
  have two: "length (find_docs (FieldEq ''student_id'' (BStr ''000000000000000000000003''))
             (enrollments_col scenario_db)) = 2"
    by (simp add: find_docs_def scenario_db_def example_id_eq EnrollmentCreate_dict_def bob_in_cs101_def)
  from courses_of_student_no_duplicates [OF scenario_unique(3) scenario_refs,
      of "''000000000000000000000003''"]
  show ?thesis
    using scenario_unique(3) scenario_refs two scenario_courses_of_student by simp
qed

subsection \<open>Update replaces every field\<close>

text \<open>
  Claim C8, as the code has it. update performs a full replace of the mutable fields
  of the matched record: after a successful update every mutable field of the stored
  record equals the field of the validated input, which is the body with its address as
  the validation returns it; an optional field the body leaves out (instructor
  expertise, course description) is stored with the value null, the key kept, and is
  not kept from its previous value; the updated record is what the handler returns.
\<close>

theorem update_replaces_all_fields:
  "(email_str (InstructorCreate.email idata) = Some e \<and>
    put_instructor email_str s idata db = (Inr doc, db1) \<longrightarrow>
      (\<exists>oid stored. ObjectId s = Inr oid \<and>
         find_one (IdEq oid) (instructors_col db1) = Some (oid, stored) \<and>
         stored ''name'' = Some (BStr (InstructorCreate.name idata)) \<and>
         stored ''email'' = Some (BStr e) \<and>
         stored ''expertise'' = Some (opt_str (expertise idata)) \<and>
         (expertise idata = None \<longrightarrow> stored ''expertise'' = Some BNull) \<and>
         doc = stringify_id (oid, stored))) \<and>
   (email_str (StudentCreate.email sdata) = Some e \<and>
    put_student email_str s sdata db = (Inr doc, db1) \<longrightarrow>
      (\<exists>oid stored. ObjectId s = Inr oid \<and>
         find_one (IdEq oid) (students_col db1) = Some (oid, stored) \<and>
         stored ''name'' = Some (BStr (StudentCreate.name sdata)) \<and>
         stored ''email'' = Some (BStr e) \<and>
         doc = stringify_id (oid, stored))) \<and>
   (update_course s cdata db = (Inr doc, db1) \<longrightarrow>
      (\<exists>oid stored. ObjectId s = Inr oid \<and>
         find_one (IdEq oid) (courses_col db1) = Some (oid, stored) \<and>
         stored ''title'' = Some (BStr (title cdata)) \<and>
         stored ''description'' = Some (opt_str (description cdata)) \<and>
         (description cdata = None \<longrightarrow> stored ''description'' = Some BNull) \<and>
         stored ''instructor_id'' = Some (BStr (instructor_id cdata)) \<and>
         doc = stringify_id (oid, stored)))"
proof (intro conjI impI)
  assume a: "email_str (InstructorCreate.email idata) = Some e \<and>
    put_instructor email_str s idata db = (Inr doc, db1)"
  then have "update_instructor s (idata\<lparr>InstructorCreate.email := e\<rparr>) db = (Inr doc, db1)"
    using put_instructor_valid [of email_str idata e s db] by simp
  from update_instructor_success [OF this] obtain oid old where
    "ObjectId s = Inr oid"
    "find_one (IdEq oid) (instructors_col db1) =
       Some (oid, old ++ InstructorCreate_dict (idata\<lparr>InstructorCreate.email := e\<rparr>))"
    "doc = stringify_id (oid, old ++ InstructorCreate_dict (idata\<lparr>InstructorCreate.email := e\<rparr>))"
    by blast
  then show "\<exists>oid stored. ObjectId s = Inr oid \<and>
         find_one (IdEq oid) (instructors_col db1) = Some (oid, stored) \<and>
         stored ''name'' = Some (BStr (InstructorCreate.name idata)) \<and>
         stored ''email'' = Some (BStr e) \<and>
         stored ''expertise'' = Some (opt_str (expertise idata)) \<and>
         (expertise idata = None \<longrightarrow> stored ''expertise'' = Some BNull) \<and>
         doc = stringify_id (oid, stored)"
    using set_InstructorCreate_fields [of old "idata\<lparr>InstructorCreate.email := e\<rparr>"]
    by (auto simp: opt_str_def)
next
  assume a: "email_str (StudentCreate.email sdata) = Some e \<and>
    put_student email_str s sdata db = (Inr doc, db1)"
  then have "update_student s (sdata\<lparr>StudentCreate.email := e\<rparr>) db = (Inr doc, db1)"
    using put_student_valid [of email_str sdata e s db] by simp
  from update_student_success [OF this] obtain oid old where
    "ObjectId s = Inr oid"
    "find_one (IdEq oid) (students_col db1) =
       Some (oid, old ++ StudentCreate_dict (sdata\<lparr>StudentCreate.email := e\<rparr>))"
    "doc = stringify_id (oid, old ++ StudentCreate_dict (sdata\<lparr>StudentCreate.email := e\<rparr>))"
    by blast
  then show "\<exists>oid stored. ObjectId s = Inr oid \<and>
         find_one (IdEq oid) (students_col db1) = Some (oid, stored) \<and>
         stored ''name'' = Some (BStr (StudentCreate.name sdata)) \<and>
         stored ''email'' = Some (BStr e) \<and>
         doc = stringify_id (oid, stored)"
    using set_StudentCreate_fields [of old "sdata\<lparr>StudentCreate.email := e\<rparr>"] by auto
next
  assume "update_course s cdata db = (Inr doc, db1)"
  from update_course_success [OF this] obtain oid old where
    "ObjectId s = Inr oid"
    "find_one (IdEq oid) (courses_col db1) = Some (oid, old ++ CourseCreate_dict cdata)"
    "doc = stringify_id (oid, old ++ CourseCreate_dict cdata)"
    by blast
  then show "\<exists>oid stored. ObjectId s = Inr oid \<and>
         find_one (IdEq oid) (courses_col db1) = Some (oid, stored) \<and>
         stored ''title'' = Some (BStr (title cdata)) \<and>
         stored ''description'' = Some (opt_str (description cdata)) \<and>
         (description cdata = None \<longrightarrow> stored ''description'' = Some BNull) \<and>
         stored ''instructor_id'' = Some (BStr (instructor_id cdata)) \<and>
         doc = stringify_id (oid, stored)"
    using set_CourseCreate_fields [of old cdata] by (auto simp: opt_str_def)
qed

text \<open>
  The same in the scenario: the instructor's expertise and the course's description
  were set before the update and are null after it.
\<close>

theorem update_replaces_all_fields_witness:
  "lower_domain (InstructorCreate.email ada_update) = Some ''Ada@y.org'' \<and>
   put_instructor lower_domain ''000000000000000000000001'' ada_update scenario_db =
     (Inr (stringify_id (example_id 1, InstructorCreate_dict ada ++
             InstructorCreate_dict (ada_update\<lparr>InstructorCreate.email := ''Ada@y.org''\<rparr>))),
      scenario_db\<lparr>instructors_col :=
        [(example_id 1, InstructorCreate_dict ada ++
             InstructorCreate_dict (ada_update\<lparr>InstructorCreate.email := ''Ada@y.org''\<rparr>))]\<rparr>) \<and>
   InstructorCreate_dict ada ''expertise'' = Some (BStr ''logic'') \<and>
   expertise ada_update = None \<and>
   (\<exists>stored. find_one (IdEq (example_id 1)) (instructors_col (scenario_db\<lparr>instructors_col :=
        [(example_id 1, InstructorCreate_dict ada ++
             InstructorCreate_dict (ada_update\<lparr>InstructorCreate.email := ''Ada@y.org''\<rparr>))]\<rparr>)) =
          Some (example_id 1, stored) \<and>
      stored ''name'' = Some (BStr ''Ada Lovelace'') \<and>
      stored ''email'' = Some (BStr ''Ada@y.org'') \<and>
      stored ''expertise'' = Some BNull) \<and>
   lower_domain (StudentCreate.email bob_update) = Some ''Bob@y.org'' \<and>
   put_student lower_domain ''000000000000000000000003'' bob_update scenario_db =
     (Inr (stringify_id (example_id 3, StudentCreate_dict bob ++
             StudentCreate_dict (bob_update\<lparr>StudentCreate.email := ''Bob@y.org''\<rparr>))),
      scenario_db\<lparr>students_col :=
        [(example_id 3, StudentCreate_dict bob ++
             StudentCreate_dict (bob_update\<lparr>StudentCreate.email := ''Bob@y.org''\<rparr>))]\<rparr>) \<and>
   (\<exists>stored. find_one (IdEq (example_id 3)) (students_col (scenario_db\<lparr>students_col :=
        [(example_id 3, StudentCreate_dict bob ++
             StudentCreate_dict (bob_update\<lparr>StudentCreate.email := ''Bob@y.org''\<rparr>))]\<rparr>)) =
          Some (example_id 3, stored) \<and>
      stored ''name'' = Some (BStr ''Robert'') \<and>
      stored ''email'' = Some (BStr ''Bob@y.org'')) \<and>
   update_course ''000000000000000000000002'' cs101_update scenario_db =
     (Inr (stringify_id (example_id 2, CourseCreate_dict cs101 ++ CourseCreate_dict cs101_update)),
      scenario_db\<lparr>courses_col :=
        [(example_id 2, CourseCreate_dict cs101 ++ CourseCreate_dict cs101_update)]\<rparr>) \<and>
   CourseCreate_dict cs101 ''description'' = Some (BStr ''Intro'') \<and>
   description cs101_update = None \<and>
   (\<exists>stored. find_one (IdEq (example_id 2)) (courses_col (scenario_db\<lparr>courses_col :=
        [(example_id 2, CourseCreate_dict cs101 ++ CourseCreate_dict cs101_update)]\<rparr>)) =
          Some (example_id 2, stored) \<and>
      stored ''title'' = Some (BStr ''CS102'') \<and>
      stored ''description'' = Some BNull \<and>
      stored ''instructor_id'' = Some (BStr ''000000000000000000000001''))"
proof -
  have i: "\<exists>stored. find_one (IdEq (example_id 1)) (instructors_col (scenario_db\<lparr>instructors_col :=
        [(example_id 1, InstructorCreate_dict ada ++
             InstructorCreate_dict (ada_update\<lparr>InstructorCreate.email := ''Ada@y.org''\<rparr>))]\<rparr>)) =
          Some (example_id 1, stored) \<and>
      stored ''name'' = Some (BStr ''Ada Lovelace'') \<and>
      stored ''email'' = Some (BStr ''Ada@y.org'') \<and>
      stored ''expertise'' = Some BNull"
    using update_replaces_all_fields [of lower_domain ada_update "''Ada@y.org''"
        "''000000000000000000000001''" scenario_db
        "stringify_id (example_id 1, InstructorCreate_dict ada ++
             InstructorCreate_dict (ada_update\<lparr>InstructorCreate.email := ''Ada@y.org''\<rparr>))"
        "scenario_db\<lparr>instructors_col :=
          [(example_id 1, InstructorCreate_dict ada ++
             InstructorCreate_dict (ada_update\<lparr>InstructorCreate.email := ''Ada@y.org''\<rparr>))]\<rparr>"]
      scenario_puts(1) scenario_put_facts(1) scenario_put_facts(4)
    by (auto simp: ObjectId_1 ada_update_def)
  have s: "\<exists>stored. find_one (IdEq (example_id 3)) (students_col (scenario_db\<lparr>students_col :=
        [(example_id 3, StudentCreate_dict bob ++
             StudentCreate_dict (bob_update\<lparr>StudentCreate.email := ''Bob@y.org''\<rparr>))]\<rparr>)) =
          Some (example_id 3, stored) \<and>
      stored ''name'' = Some (BStr ''Robert'') \<and>
      stored ''email'' = Some (BStr ''Bob@y.org'')"
    using update_replaces_all_fields [of lower_domain ada_update "''Bob@y.org''"
        "''000000000000000000000003''" scenario_db
        "stringify_id (example_id 3, StudentCreate_dict bob ++
             StudentCreate_dict (bob_update\<lparr>StudentCreate.email := ''Bob@y.org''\<rparr>))"
        "scenario_db\<lparr>students_col :=
          [(example_id 3, StudentCreate_dict bob ++
             StudentCreate_dict (bob_update\<lparr>StudentCreate.email := ''Bob@y.org''\<rparr>))]\<rparr>" bob_update
        cs101_update, THEN conjunct2, THEN conjunct1]
      scenario_puts(2) scenario_put_facts(2)
    by (auto simp: ObjectId_3 bob_update_def)
  have c: "\<exists>stored. find_one (IdEq (example_id 2)) (courses_col (scenario_db\<lparr>courses_col :=
        [(example_id 2, CourseCreate_dict cs101 ++ CourseCreate_dict cs101_update)]\<rparr>)) =
          Some (example_id 2, stored) \<and>
      stored ''title'' = Some (BStr ''CS102'') \<and>
      stored ''description'' = Some BNull \<and>
      stored ''instructor_id'' = Some (BStr ''000000000000000000000001'')"
    using update_replaces_all_fields [of lower_domain ada_update "''Ada@y.org''"
        "''000000000000000000000002''" scenario_db
        "stringify_id (example_id 2, CourseCreate_dict cs101 ++ CourseCreate_dict cs101_update)"
        "scenario_db\<lparr>courses_col :=
          [(example_id 2, CourseCreate_dict cs101 ++ CourseCreate_dict cs101_update)]\<rparr>"
        bob_update cs101_update, THEN conjunct2, THEN conjunct2]
      scenario_puts(3) scenario_put_facts(5)
    by (auto simp: ObjectId_2 cs101_update_def)
  show ?thesis
    using i s c scenario_puts scenario_put_facts by blast
qed

text \<open>
  Claim C8 as stated fails twice at one update of the scenario's instructor: the body
  has the address \<open>Ada@Y.ORG\<close> and the stored record \<open>Ada@y.org\<close>, not the field of the
  input; and the expertise the body leaves out is not absent from the stored record,
  whose key \<open>expertise\<close> is there with the value null.
\<close>

theorem stored_email_is_normalised_and_omitted_field_is_null:
  "InstructorCreate.email ada_update = ''Ada@Y.ORG'' \<and>
   expertise ada_update = None \<and>
   put_instructor lower_domain ''000000000000000000000001'' ada_update scenario_db =
     (Inr (stringify_id (example_id 1, InstructorCreate_dict ada ++
             InstructorCreate_dict (ada_update\<lparr>InstructorCreate.email := ''Ada@y.org''\<rparr>))),
      scenario_db\<lparr>instructors_col :=
        [(example_id 1, InstructorCreate_dict ada ++
             InstructorCreate_dict (ada_update\<lparr>InstructorCreate.email := ''Ada@y.org''\<rparr>))]\<rparr>) \<and>
   (InstructorCreate_dict ada ++
      InstructorCreate_dict (ada_update\<lparr>InstructorCreate.email := ''Ada@y.org''\<rparr>)) ''email'' =
     Some (BStr ''Ada@y.org'') \<and>
   ''Ada@y.org'' \<noteq> ''Ada@Y.ORG'' \<and>
   (InstructorCreate_dict ada ++
      InstructorCreate_dict (ada_update\<lparr>InstructorCreate.email := ''Ada@y.org''\<rparr>)) ''expertise'' =
     Some BNull \<and>
   ''expertise'' \<in> dom (InstructorCreate_dict ada ++
      InstructorCreate_dict (ada_update\<lparr>InstructorCreate.email := ''Ada@y.org''\<rparr>))"
proof -
  have f: "(InstructorCreate_dict ada ++
      InstructorCreate_dict (ada_update\<lparr>InstructorCreate.email := ''Ada@y.org''\<rparr>)) ''email'' =
     Some (BStr ''Ada@y.org'')"
    "(InstructorCreate_dict ada ++
      InstructorCreate_dict (ada_update\<lparr>InstructorCreate.email := ''Ada@y.org''\<rparr>)) ''expertise'' =
     Some BNull"
    by (simp_all add: set_InstructorCreate_fields ada_update_def opt_str_def)
  have n: "''Ada@y.org'' \<noteq> ''Ada@Y.ORG''"
    by simp
  have d: "''expertise'' \<in> dom (InstructorCreate_dict ada ++
      InstructorCreate_dict (ada_update\<lparr>InstructorCreate.email := ''Ada@y.org''\<rparr>))"
    using f(2) by (rule domI)
  show ?thesis
    using f n d scenario_puts(1) scenario_put_facts(3) scenario_put_facts(4) by blast
qed

subsection \<open>No cascading delete\<close>

text \<open>
  Claim C9. Deleting an Instructor or a Course does not modify any record of the
  courses or enrollments collections that references the deleted entity: after
  deleteById on an instructor succeeds, coursesByInstructor on the same identifier
  returns the same sequence of Course records as before; deleting a course leaves the
  enrollments as they were.
\<close>

theorem delete_does_not_cascade:
  "(delete_instructor s db = (Inr (), db1) \<longrightarrow>
      courses_col db1 = courses_col db \<and> enrollments_col db1 = enrollments_col db \<and>
      fst (get_courses_by_instructor s db1) = fst (get_courses_by_instructor s db)) \<and>
   (delete_course c db = (Inr (), db2) \<longrightarrow>
      enrollments_col db2 = enrollments_col db \<and> instructors_col db2 = instructors_col db \<and>
      students_col db2 = students_col db \<and>
      fst (get_students_of_course c db2) = fst (get_students_of_course c db))"
proof -
  have a: "courses_col db1 = courses_col db \<and> enrollments_col db1 = enrollments_col db"
    if "delete_instructor s db = (Inr (), db1)"
    using delete_instructor_frame [of s db] that by simp
  have b: "enrollments_col db2 = enrollments_col db \<and> instructors_col db2 = instructors_col db \<and>
      students_col db2 = students_col db"
    if "delete_course c db = (Inr (), db2)"
    using delete_course_frame [of c db] that by simp
  show ?thesis
    using a b get_courses_by_instructor_reads [of db1 db s]
      get_students_of_course_reads [of db2 db c]
    by blast
qed

text \<open>
  The same in the scenario: the course of the deleted instructor is still returned.
\<close>

theorem delete_does_not_cascade_witness:
  "delete_instructor ''000000000000000000000001'' scenario_db =
     (Inr (), scenario_db\<lparr>instructors_col := []\<rparr>) \<and>
   fst (get_courses_by_instructor ''000000000000000000000001'' scenario_db) =
     Inr [(CourseCreate_dict cs101)(''_id'' \<mapsto> BStr ''000000000000000000000002'')] \<and>
   fst (get_courses_by_instructor ''000000000000000000000001''
          (scenario_db\<lparr>instructors_col := []\<rparr>)) =
     Inr [(CourseCreate_dict cs101)(''_id'' \<mapsto> BStr ''000000000000000000000002'')] \<and>
   delete_course ''000000000000000000000002'' scenario_db =
     (Inr (), scenario_db\<lparr>courses_col := []\<rparr>) \<and>
   enrollments_col (scenario_db\<lparr>courses_col := []\<rparr>) = enrollments_col scenario_db"
  using delete_does_not_cascade [of "''000000000000000000000001''" scenario_db
      "scenario_db\<lparr>instructors_col := []\<rparr>" "''000000000000000000000002''"
      "scenario_db\<lparr>courses_col := []\<rparr>"]
    scenario_deletes(1) scenario_deletes(3) scenario_courses_by_instructor
  by simp

subsection \<open>Failures leave the storage unchanged\<close>

text \<open>
  Claim C10. Every operation is atomic on error: when getById, update or deleteById
  fails with InvalidIdentifier (400) or NotFound (404), the storage state of every
  collection is the same after the call as before it.
\<close>

theorem failure_leaves_storage_unchanged:
  "(client_error (fst (get_instructor s db)) \<longrightarrow> snd (get_instructor s db) = db) \<and>
   (client_error (fst (update_instructor s idata db)) \<longrightarrow> snd (update_instructor s idata db) = db) \<and>
   (client_error (fst (delete_instructor s db)) \<longrightarrow> snd (delete_instructor s db) = db) \<and>
   (client_error (fst (get_student s db)) \<longrightarrow> snd (get_student s db) = db) \<and>
   (client_error (fst (update_student s sdata db)) \<longrightarrow> snd (update_student s sdata db) = db) \<and>
   (client_error (fst (delete_student s db)) \<longrightarrow> snd (delete_student s db) = db) \<and>
   (client_error (fst (get_course s db)) \<longrightarrow> snd (get_course s db) = db) \<and>
   (client_error (fst (update_course s cdata db)) \<longrightarrow> snd (update_course s cdata db) = db) \<and>
   (client_error (fst (delete_course s db)) \<longrightarrow> snd (delete_course s db) = db) \<and>
   (client_error (fst (delete_enrollment s db)) \<longrightarrow> snd (delete_enrollment s db) = db)"
  using client_error_isl [of "fst (update_instructor s idata db)"]
    client_error_isl [of "fst (update_student s sdata db)"]
    client_error_isl [of "fst (update_course s cdata db)"]
    client_error_isl [of "fst (delete_instructor s db)"]
    client_error_isl [of "fst (delete_student s db)"]
    client_error_isl [of "fst (delete_course s db)"]
    client_error_isl [of "fst (delete_enrollment s db)"]
  by (auto simp: get_instructor_state get_student_state get_course_state
      dest: update_instructor_failure update_student_failure update_course_failure
        delete_instructor_failure delete_student_failure delete_course_failure
        delete_enrollment_failure)

text \<open>
  The same at an identifier the scenario does not hold: each of the ten handlers fails
  with NotFound and returns the storage as it was.
\<close>

theorem failure_leaves_storage_unchanged_witness:
  "client_error (fst (get_instructor ''0000000000000000000000ff'' scenario_db)) \<and>
   snd (get_instructor ''0000000000000000000000ff'' scenario_db) = scenario_db \<and>
   client_error (fst (update_instructor ''0000000000000000000000ff'' ada scenario_db)) \<and>
   snd (update_instructor ''0000000000000000000000ff'' ada scenario_db) = scenario_db \<and>
   client_error (fst (delete_instructor ''0000000000000000000000ff'' scenario_db)) \<and>
   snd (delete_instructor ''0000000000000000000000ff'' scenario_db) = scenario_db \<and>
   client_error (fst (get_student ''0000000000000000000000ff'' scenario_db)) \<and>
   snd (get_student ''0000000000000000000000ff'' scenario_db) = scenario_db \<and>
   client_error (fst (update_student ''0000000000000000000000ff'' bob scenario_db)) \<and>
   snd (update_student ''0000000000000000000000ff'' bob scenario_db) = scenario_db \<and>
   client_error (fst (delete_student ''0000000000000000000000ff'' scenario_db)) \<and>
   snd (delete_student ''0000000000000000000000ff'' scenario_db) = scenario_db \<and>
   client_error (fst (get_course ''0000000000000000000000ff'' scenario_db)) \<and>
   snd (get_course ''0000000000000000000000ff'' scenario_db) = scenario_db \<and>
   client_error (fst (update_course ''0000000000000000000000ff'' cs101 scenario_db)) \<and>
   snd (update_course ''0000000000000000000000ff'' cs101 scenario_db) = scenario_db \<and>
   client_error (fst (delete_course ''0000000000000000000000ff'' scenario_db)) \<and>
   snd (delete_course ''0000000000000000000000ff'' scenario_db) = scenario_db \<and>
   client_error (fst (delete_enrollment ''0000000000000000000000ff'' scenario_db)) \<and>
   snd (delete_enrollment ''0000000000000000000000ff'' scenario_db) = scenario_db"
proof -
  have h:
    "client_error (fst (get_instructor ''0000000000000000000000ff'' scenario_db))"
    "client_error (fst (update_instructor ''0000000000000000000000ff'' ada scenario_db))"
    "client_error (fst (delete_instructor ''0000000000000000000000ff'' scenario_db))"
    "client_error (fst (get_student ''0000000000000000000000ff'' scenario_db))"
    "client_error (fst (update_student ''0000000000000000000000ff'' bob scenario_db))"
    "client_error (fst (delete_student ''0000000000000000000000ff'' scenario_db))"
    "client_error (fst (get_course ''0000000000000000000000ff'' scenario_db))"
    "client_error (fst (update_course ''0000000000000000000000ff'' cs101 scenario_db))"
    "client_error (fst (delete_course ''0000000000000000000000ff'' scenario_db))"
    "client_error (fst (delete_enrollment ''0000000000000000000000ff'' scenario_db))"
    by (simp_all add: not_found_examples client_error_def)
  show ?thesis
    using failure_leaves_storage_unchanged
      [of "''0000000000000000000000ff''" scenario_db ada bob cs101] h
    by blast
qed

end
